theory Spec2Isabelle
  imports Complex_Main "HOL-Library.Sublist"
begin

section \<open>The country table of \<open>src/scripts.ts\<close>\<close>

text \<open>
  The class \<open>CountryTable\<close> keeps the pagination, search and sort state of a table and
  turns it into requests to a REST endpoint. Its handlers are embedded as functions on a
  record of everything they read and write: the fields of the class, the two places of the
  document they render into, the console, and the list of URLs passed to \<open>fetch\<close>. What
  the network answers is an argument of each handler, in the order of its \<open>await\<close>s.
  A handler is run to its end before the next one starts (the interleaving of two
  handlers at their \<open>await\<close>s is not modelled).

  The page, the limit and what the script computes from them are integers: the page is
  counted from 1 in steps of 1, far below \<open>2 ^ 53\<close>, where the arithmetic of the script
  is that of the integers. The number that the script reads from a header of a response
  is a \<open>number\<close>, which is not always an integer. A string is a \<open>string\<close> whose characters stand for the code units U+0000 to
  U+00FF, one each, so that \<open>length\<close> is the \<open>length\<close> of the script.
\<close>

subsection \<open>Data\<close>

text \<open>The field \<open>sortDirection: 'asc' | 'desc'\<close>.\<close>

datatype direction = asc | desc

fun direction_text :: "direction \<Rightarrow> string" where
  "direction_text asc = ''asc''"
| "direction_text desc = ''desc''"

text \<open>
  The field \<open>limit: 5 | 10 | 20\<close>. The handler of the select stores
  \<open>Number(selectedValue) as 5 | 10 | 20\<close>, a cast the compiler does not check; the
  model has the three values of the declared type.
\<close>

datatype page_limit = Limit5 | Limit10 | Limit20

fun limit_value :: "page_limit \<Rightarrow> int" where
  "limit_value Limit5 = 5"
| "limit_value Limit10 = 10"
| "limit_value Limit20 = 20"

text \<open>The interface \<open>Country\<close>, with its two nested objects.\<close>

record currency =
  currency_code :: string
  currency_name :: string
  currency_symbol :: string

record language =
  language_code :: string
  language_name :: string

record Country =
  name :: string
  code :: string
  capital :: string
  region :: string
  currency :: currency
  language :: language
  flag :: string
  dialling_code :: string
  isoCode :: string

text \<open>
  One \<open>tr\<close> element made by \<open>renderItems\<close>: the values put into the five holes of
  its template, in the order of the template.
\<close>

record tr =
  flag_code :: string
  name_cell :: string
  capital_cell :: string
  currency_cell :: string
  language_cell :: string

text \<open>The fields of the class that the handlers assign.\<close>

record CountryTable =
  apiUrl :: string
  currentPage :: int
  limit :: page_limit
  searchParams :: "(string \<times> string) list"
  sortColumn :: "string option"
  sortDirection :: direction

text \<open>
  The view: the rows of the \<open>tbody\<close> element (\<open>None\<close> when the document has no
  \<open>tbody\<close>) and the text of the element \<open>#entriesAmount\<close> (\<open>None\<close> when
  \<open>entriesAmountSpan\<close> is \<open>null\<close>).
\<close>

record dom =
  tbody :: "tr list option"
  entriesAmount :: "string option"

text \<open>
  The whole: the object, the view, the calls of \<open>console.error\<close> (the two arguments of
  each call) and the URLs given to \<open>fetch\<close>, both oldest first.
\<close>

record system =
  table :: CountryTable
  document :: dom
  console :: "(string \<times> string) list"
  network :: "string list"

text \<open>
  What the network answers to the request of \<open>fetchData\<close>: \<open>fetch\<close> rejects, or
  \<open>response.json()\<close> rejects, or the body parses to an array of countries, the type
  that \<open>renderItems\<close> declares for it. The string is the \<open>message\<close> of the
  error.
\<close>

datatype data_reply = FetchRejected string | JsonRejected string | Data "Country list"

text \<open>
  A number that the platform reads from a text. The script does two things with it: it
  takes \<open>Math.ceil\<close> of its quotient by the limit, and it prints it in a template
  literal.
  \<^item> \<open>NaN\<close>, for a text that is no numeric literal;
  \<^item> \<open>PlusInfinity\<close> and \<open>MinusInfinity\<close>;
  \<^item> \<open>Integer n\<close>, an integer from \<open>- 2 ^ 53\<close> to \<open>2 ^ 53\<close>, of the type
    \<open>exact_int\<close> below: a number holds it exactly, its quotient by 5, 10 or 20 is
    rounded to a number with the same ceiling, and it is printed in decimal digits (the
    text \<open>9007199254740993\<close> is read as \<open>2 ^ 53\<close>);
  \<^item> \<open>OtherNumber c5 c10 c20 text\<close>, any other finite number \<open>x\<close> (a fraction, or an
    integer outside that range): the model does not compute with it, and has it as what
    the platform gives for it, \<open>Math.ceil(x / 5)\<close>, \<open>Math.ceil(x / 10)\<close>,
    \<open>Math.ceil(x / 20)\<close> and the text of \<open>x\<close> in a template literal (as
    \<open>1e+21\<close> for ten to the power 21).
\<close>

typedef exact_int = "{n :: int. - (2 ^ 53) \<le> n \<and> n \<le> 2 ^ 53}"
  by (rule exI [of _ 0]) simp

datatype number =
    NaN
  | PlusInfinity
  | MinusInfinity
  | Integer exact_int
  | OtherNumber int int int string

text \<open>
  What the network answers to the request of \<open>getNumberOfEntries\<close>: \<open>fetch\<close>
  rejects, or there is a response, whose header \<open>X-Total-Count\<close> is absent (\<open>None\<close>)
  or a text, given as the number that the platform reads from it.
\<close>

datatype count_reply = CountRejected string | CountResponse "number option"

text \<open>The \<open>TypeError\<close> of reading a property of \<open>null\<close>.\<close>

datatype js_error = TypeError

subsection \<open>Library functions of the platform\<close>

text \<open>
  An integer in a template literal: its decimal text. The script prints in this way the
  limit and the numbers that it computes from the page and the limit.
\<close>

fun show_nat :: "nat \<Rightarrow> string" where
  "show_nat n =
     (if n < 10 then [''0123456789'' ! n]
      else show_nat (n div 10) @ [''0123456789'' ! (n mod 10)])"

declare show_nat.simps [simp del]

definition show_int :: "int \<Rightarrow> string" where
  "show_int i = (if i < 0 then CHR ''-'' # show_nat (nat (- i)) else show_nat (nat i))"

text \<open>
  \<open>Number(h)\<close> of a header: \<open>Number(null)\<close> is 0, and for a text it is the number
  that the platform reads from it.
\<close>

fun Number :: "number option \<Rightarrow> number" where
  "Number None = Integer (Abs_exact_int 0)"
| "Number (Some x) = x"

text \<open>A \<open>number\<close> in a template literal.\<close>

fun number_text :: "number \<Rightarrow> string" where
  "number_text NaN = ''NaN''"
| "number_text PlusInfinity = ''Infinity''"
| "number_text MinusInfinity = ''-Infinity''"
| "number_text (Integer n) = show_int (Rep_exact_int n)"
| "number_text (OtherNumber c5 c10 c20 text) = text"

text \<open>
  \<open>Math.ceil(x / limit)\<close> for a \<open>number\<close> and a limit: not a number, infinite, or
  an integer.
\<close>

datatype pages = NotANumber | MinusInfinitePages | Pages int | InfinitePages

fun Math_ceil_quotient :: "number \<Rightarrow> page_limit \<Rightarrow> pages" where
  "Math_ceil_quotient NaN l = NotANumber"
| "Math_ceil_quotient PlusInfinity l = InfinitePages"
| "Math_ceil_quotient MinusInfinity l = MinusInfinitePages"
| "Math_ceil_quotient (Integer n) l =
     Pages \<lceil>real_of_int (Rep_exact_int n) / real_of_int (limit_value l)\<rceil>"
| "Math_ceil_quotient (OtherNumber c5 c10 c20 text) Limit5 = Pages c5"
| "Math_ceil_quotient (OtherNumber c5 c10 c20 text) Limit10 = Pages c10"
| "Math_ceil_quotient (OtherNumber c5 c10 c20 text) Limit20 = Pages c20"

text \<open>\<open>page < totalPages\<close>; a comparison with \<open>NaN\<close> is false.\<close>

fun less_pages :: "int \<Rightarrow> pages \<Rightarrow> bool" where
  "less_pages page NotANumber = False"
| "less_pages page MinusInfinitePages = False"
| "less_pages page (Pages k) = (page < k)"
| "less_pages page InfinitePages = True"

text \<open>
  \<open>String.prototype.trim\<close>: white space and line terminators are removed at both ends
  (below U+0100: tab, line feed, vertical tab, form feed, carriage return, space and the
  no-break space).
\<close>

definition is_white_space :: "char \<Rightarrow> bool" where
  "is_white_space c = (of_char c \<in> {9, 10, 11, 12, 13, 32, 160 :: nat})"

definition trim :: "string \<Rightarrow> string" where
  "trim s = rev (dropWhile is_white_space (rev (dropWhile is_white_space s)))"

text \<open>
  \<open>new URLSearchParams(o).toString()\<close>: the pairs of the object, each as
  \<open>name=value\<close>, joined by \<open>&\<close>. Names and values are form-urlencoded: letters,
  digits and \<open>*-._\<close> stay, a space becomes \<open>+\<close>, any other byte of the UTF-8 text is
  \<open>%\<close> and two capital hexadecimal digits.
\<close>

definition percent_byte :: "nat \<Rightarrow> string" where
  "percent_byte b = [CHR ''%'', ''0123456789ABCDEF'' ! (b div 16), ''0123456789ABCDEF'' ! (b mod 16)]"

definition form_urlencode_char :: "char \<Rightarrow> string" where
  "form_urlencode_char c =
     (if c \<in> set ''abcdefghijklmnopqrstuvwxyzABCDEFGHIJKLMNOPQRSTUVWXYZ0123456789*-._'' then [c]
      else if c = CHR '' '' then ''+''
      else if (of_char c :: nat) < 128 then percent_byte (of_char c)
      else percent_byte (192 + of_char c div 64) @ percent_byte (128 + of_char c mod 64))"

definition form_urlencode :: "string \<Rightarrow> string" where
  "form_urlencode s = concat (map form_urlencode_char s)"

fun join_amp :: "string list \<Rightarrow> string" where
  "join_amp [] = []"
| "join_amp [x] = x"
| "join_amp (x # y # ys) = x @ ''&'' @ join_amp (y # ys)"

definition URLSearchParams_toString :: "(string \<times> string) list \<Rightarrow> string" where
  "URLSearchParams_toString ps =
     join_amp (map (\<lambda>(k, v). form_urlencode k @ ''='' @ form_urlencode v) ps)"

text \<open>
  \<open>toLocaleLowerCase\<close> in a locale without special casing rules: below U+0100 the
  capitals are A to Z and U+00C0 to U+00DE without the multiplication sign U+00D7.
\<close>

definition lower_char :: "char \<Rightarrow> char" where
  "lower_char c =
     (let n = (of_char c :: nat)
      in if (65 \<le> n \<and> n \<le> 90) \<or> (192 \<le> n \<and> n \<le> 222 \<and> n \<noteq> 215) then char_of (n + 32) else c)"

definition toLocaleLowerCase :: "string \<Rightarrow> string" where
  "toLocaleLowerCase s = map lower_char s"

subsection \<open>The methods of \<open>CountryTable\<close>\<close>

text \<open>
  \<open>buildApiUrl\<close>. An object has keys when the list of its pairs is not empty;
  \<open>this.sortColumn && this.sortDirection\<close> holds when the column is neither
  \<open>null\<close> nor the empty string (the direction is never empty).
\<close>

definition buildApiUrl :: "CountryTable \<Rightarrow> string \<Rightarrow> string" where
  "buildApiUrl t baseApiUrl =
     (let apiUrlWithParams = baseApiUrl;
          apiUrlWithParams =
            (if length (searchParams t) > 0
             then apiUrlWithParams @ ''&'' @ URLSearchParams_toString (searchParams t)
             else apiUrlWithParams);
          apiUrlWithParams =
            (case sortColumn t of
               None \<Rightarrow> apiUrlWithParams
             | Some column \<Rightarrow>
                 if column \<noteq> []
                 then apiUrlWithParams @ ''&_sort='' @ column @ ''&_order='' @ direction_text (sortDirection t)
                 else apiUrlWithParams)
      in apiUrlWithParams)"

text \<open>
  \<open>renderItems\<close>: without a \<open>tbody\<close> nothing happens; otherwise its content is
  emptied and one row is appended for each country, in the order of the array.
\<close>

definition render_row :: "Country \<Rightarrow> tr" where
  "render_row country =
     \<lparr>flag_code = toLocaleLowerCase (code country),
      name_cell = name country,
      capital_cell = capital country,
      currency_cell = currency_name (currency country),
      language_cell = language_name (language country)\<rparr>"

definition renderItems :: "Country list \<Rightarrow> dom \<Rightarrow> dom" where
  "renderItems countries d =
     (case tbody d of
        None \<Rightarrow> d
      | Some _ \<Rightarrow> d\<lparr>tbody := Some (map render_row countries)\<rparr>)"

text \<open>
  \<open>getNumberOfEntries\<close>: one request with \<open>_limit=1\<close>; the number in the header of
  the response, or, when \<open>fetch\<close> rejects, a line on the console and 0.
\<close>

definition getNumberOfEntries :: "count_reply \<Rightarrow> system \<Rightarrow> number \<times> system" where
  "getNumberOfEntries reply w =
     (let w1 = w\<lparr>network := network w @ [apiUrl (table w) @ ''?_limit=1'']\<rparr>
      in case reply of
           CountResponse header \<Rightarrow> (Number header, w1)
         | CountRejected msg \<Rightarrow>
             (Integer (Abs_exact_int 0),
              w1\<lparr>console := console w1 @ [(''Error fetching total amount of API entries:'', msg)]\<rparr>))"

text \<open>
  \<open>fetchData\<close>: the request of the current page; a rejection of \<open>fetch\<close> or of
  \<open>json()\<close> goes to the \<open>catch\<close>; otherwise the rows are rendered and, when there is
  a span for it, the number of entries is fetched and the summary written.
\<close>

definition entries_text :: "int \<Rightarrow> int \<Rightarrow> number \<Rightarrow> string" where
  "entries_text offset perPage totalEntries =
     ''Showing '' @ show_int (offset + 1) @ '' to '' @ show_int (offset + perPage)
       @ '' of '' @ number_text totalEntries @ '' Entries''"

definition fetchData :: "data_reply \<Rightarrow> count_reply \<Rightarrow> system \<Rightarrow> system" where
  "fetchData dreply creply w =
     (let t = table w;
          offset = (currentPage t - 1) * limit_value (limit t);
          baseApiUrl = apiUrl t @ ''?_limit='' @ show_int (limit_value (limit t))
                         @ ''&_start='' @ show_int offset;
          apiUrlWithParams = buildApiUrl t baseApiUrl;
          w1 = w\<lparr>network := network w @ [apiUrlWithParams]\<rparr>
      in case dreply of
           FetchRejected msg \<Rightarrow>
             w1\<lparr>console := console w1 @ [(''Error fetching data from API:'', msg)]\<rparr>
         | JsonRejected msg \<Rightarrow>
             w1\<lparr>console := console w1 @ [(''Error fetching data from API:'', msg)]\<rparr>
         | Data countries \<Rightarrow>
             (let w2 = w1\<lparr>document := renderItems countries (document w1)\<rparr>
              in case entriesAmount (document w2) of
                   None \<Rightarrow> w2
                 | Some _ \<Rightarrow>
                     (let (totalEntries, w3) = getNumberOfEntries creply w2
                      in w3\<lparr>document := (document w3)
                             \<lparr>entriesAmount :=
                                Some (entries_text offset (limit_value (limit t)) totalEntries)\<rparr>\<rparr>)))"

text \<open>\<open>handleSelectChange\<close>, on the value of the select after \<open>Number\<close>.\<close>

definition handleSelectChange :: "page_limit \<Rightarrow> data_reply \<Rightarrow> count_reply \<Rightarrow> system \<Rightarrow> system" where
  "handleSelectChange selectedValue dreply creply w =
     fetchData dreply creply (w\<lparr>table := (table w)\<lparr>limit := selectedValue, currentPage := 1\<rparr>\<rparr>)"

text \<open>
  \<open>handleInput\<close>. The second argument is what \<open>document.querySelector\<close> finds for
  \<open>#input<index>\<close>: \<open>None\<close> for \<open>null\<close>, where reading \<open>input.value\<close> throws, or
  the value of the element. An index other than 1 to 4 leaves \<open>searchParams\<close> as it is.
\<close>

definition handleInput :: "int \<Rightarrow> string option \<Rightarrow> data_reply \<Rightarrow> count_reply \<Rightarrow> system \<Rightarrow> js_error + system" where
  "handleInput index input dreply creply w =
     (case input of
        None \<Rightarrow> Inl TypeError
      | Some v \<Rightarrow>
          (let inputValue = trim v;
               t = table w;
               t1 = (if length inputValue \<ge> 2 then
                       (if index = 1 then t\<lparr>searchParams := [(''name_like'', inputValue)]\<rparr>
                        else if index = 2 then t\<lparr>searchParams := [(''capital_like'', inputValue)]\<rparr>
                        else if index = 3 then t\<lparr>searchParams := [(''currency.name_like'', inputValue)]\<rparr>
                        else if index = 4 then t\<lparr>searchParams := [(''language.name_like'', inputValue)]\<rparr>
                        else t)
                     else t\<lparr>searchParams := []\<rparr>)
           in Inr (fetchData dreply creply (w\<lparr>table := t1\<lparr>currentPage := 1\<rparr>\<rparr>))))"

text \<open>\<open>handlePrevButtonClick\<close>.\<close>

definition handlePrevButtonClick :: "data_reply \<Rightarrow> count_reply \<Rightarrow> system \<Rightarrow> system" where
  "handlePrevButtonClick dreply creply w =
     (if currentPage (table w) > 1
      then fetchData dreply creply (w\<lparr>table := (table w)\<lparr>currentPage := currentPage (table w) - 1\<rparr>\<rparr>)
      else w)"

text \<open>
  \<open>handleNextButtonClick\<close>. The first reply answers its own call of
  \<open>getNumberOfEntries\<close>, the other two the \<open>fetchData\<close> that follows an advance.
  \<open>getNumberOfEntries\<close> catches what it throws, so the \<open>catch\<close> of this method is
  never entered.
\<close>

definition handleNextButtonClick :: "count_reply \<Rightarrow> data_reply \<Rightarrow> count_reply \<Rightarrow> system \<Rightarrow> system" where
  "handleNextButtonClick nreply dreply creply w =
     (let (totalEntries, w1) = getNumberOfEntries nreply w;
          totalPages = Math_ceil_quotient totalEntries (limit (table w1))
      in if less_pages (currentPage (table w1)) totalPages
         then fetchData dreply creply (w1\<lparr>table := (table w1)\<lparr>currentPage := currentPage (table w1) + 1\<rparr>\<rparr>)
         else w1)"

text \<open>
  \<open>handleSortClick\<close>. The icons of the column headers, which it also rewrites, are not
  part of the model. The column is taken to be a name that the selector
  \<open>[data-column="..."]\<close> can hold (no quotation mark or backslash in it), as the
  attributes of the page are; with another name the lookup of the clicked column throws,
  after the two assignments and before the refresh.
\<close>

definition handleSortClick :: "string \<Rightarrow> data_reply \<Rightarrow> count_reply \<Rightarrow> system \<Rightarrow> system" where
  "handleSortClick column dreply creply w =
     (let t = table w;
          t1 = t\<lparr>sortDirection :=
                   (if Some column = sortColumn t
                    then (if sortDirection t = asc then desc else asc)
                    else asc)\<rparr>;
          t2 = t1\<lparr>sortColumn := Some column\<rparr>
      in fetchData dreply creply (w\<lparr>table := t2\<rparr>))"

text \<open>
  The constructor: the initial values of the fields, then \<open>fetchData\<close>. The document is
  the one the script finds, with an empty console and no request made yet.
\<close>

definition new_CountryTable :: "string \<Rightarrow> dom \<Rightarrow> data_reply \<Rightarrow> count_reply \<Rightarrow> system" where
  "new_CountryTable url d dreply creply =
     fetchData dreply creply
       \<lparr>table = \<lparr>apiUrl = url, currentPage = 1, limit = Limit5, searchParams = [],
                 sortColumn = None, sortDirection = asc\<rparr>,
        document = d, console = [], network = []\<rparr>"

text \<open>
  The events that \<open>setupEventListeners\<close> subscribes to, each with what the network
  answers while its handler runs. A click on a sortable column carries its attribute
  \<open>data-column\<close>; the listener calls \<open>handleSortClick\<close> only when the attribute is
  neither \<open>null\<close> nor empty. An exception that leaves \<open>handleInput\<close> is thrown
  before any assignment.
\<close>

datatype event =
    SelectChange page_limit data_reply count_reply
  | Input int "string option" data_reply count_reply
  | PrevClick data_reply count_reply
  | NextClick count_reply data_reply count_reply
  | ColumnClick "string option" data_reply count_reply

fun dispatch :: "event \<Rightarrow> system \<Rightarrow> system" where
  "dispatch (SelectChange v dr cr) w = handleSelectChange v dr cr w"
| "dispatch (Input i input dr cr) w =
     (case handleInput i input dr cr w of Inl _ \<Rightarrow> w | Inr w' \<Rightarrow> w')"
| "dispatch (PrevClick dr cr) w = handlePrevButtonClick dr cr w"
| "dispatch (NextClick nr dr cr) w = handleNextButtonClick nr dr cr w"
| "dispatch (ColumnClick columnName dr cr) w =
     (case columnName of
        None \<Rightarrow> w
      | Some column \<Rightarrow> if column \<noteq> [] then handleSortClick column dr cr w else w)"

fun run :: "event list \<Rightarrow> system \<Rightarrow> system" where
  "run [] w = w"
| "run (e # es) w = run es (dispatch e w)"

subsection \<open>A concrete table\<close>

text \<open>
  The response to the request of \<open>getNumberOfEntries\<close> whose header is the decimal
  text of an integer from \<open>- 2 ^ 53\<close> to \<open>2 ^ 53\<close>.
\<close>

abbreviation CountHeader :: "int \<Rightarrow> count_reply" where
  "CountHeader n \<equiv> CountResponse (Some (Integer (Abs_exact_int n)))"

text \<open>
  The table of the script, \<open>new CountryTable('http://localhost:3005/countries')\<close>, on
  a given page, with the initial limit of 5, no search and no sort, in a document that has
  both a \<open>tbody\<close> and the span, before any request.
\<close>

definition table_on_page :: "int \<Rightarrow> CountryTable" where
  "table_on_page p =
     \<lparr>apiUrl = ''http://localhost:3005/countries'', currentPage = p, limit = Limit5,
      searchParams = [], sortColumn = None, sortDirection = asc\<rparr>"

definition system_on_page :: "int \<Rightarrow> system" where
  "system_on_page p =
     \<lparr>table = table_on_page p,
      document = \<lparr>tbody = Some [], entriesAmount = Some []\<rparr>,
      console = [], network = []\<rparr>"

definition france :: Country where
  "france =
     \<lparr>name = ''France'', code = ''FR'', capital = ''Paris'', region = ''EU'',
      currency = \<lparr>currency_code = ''EUR'', currency_name = ''Euro'', currency_symbol = ''E''\<rparr>,
      language = \<lparr>language_code = ''fr'', language_name = ''French''\<rparr>,
      flag = ''fr.png'', dialling_code = ''+33'', isoCode = ''250''\<rparr>"

section \<open>Properties\<close>

subsection \<open>What a refresh leaves alone\<close>

lemma getNumberOfEntries_table: "getNumberOfEntries reply w = (n, w1) \<Longrightarrow> table w1 = table w"
  by (auto simp: getNumberOfEntries_def Let_def split: count_reply.splits)

lemma getNumberOfEntries_document:
  "getNumberOfEntries reply w = (n, w1) \<Longrightarrow> document w1 = document w"
  by (auto simp: getNumberOfEntries_def Let_def split: count_reply.splits)

lemma fetchData_table: "table (fetchData dreply creply w) = table w"
  by (simp add: fetchData_def getNumberOfEntries_def Let_def
      split: data_reply.split option.split count_reply.split)

lemma fetchData_network:
  "prefix (network w @ [buildApiUrl (table w)
       (apiUrl (table w) @ ''?_limit='' @ show_int (limit_value (limit (table w))) @ ''&_start=''
          @ show_int ((currentPage (table w) - 1) * limit_value (limit (table w))))])
     (network (fetchData dreply creply w))"
  by (simp add: fetchData_def getNumberOfEntries_def Let_def prefix_def
      split: data_reply.split option.split count_reply.split)

lemma show_int_0: "show_int 0 = ''0''"
  by (simp add: show_int_def show_nat.simps)

lemma Rep_exact_int_Abs [simp]:
  "- (2 ^ 53) \<le> n \<Longrightarrow> n \<le> 2 ^ 53 \<Longrightarrow> Rep_exact_int (Abs_exact_int n) = n"
  by (simp add: Abs_exact_int_inverse)

lemmas eval_simps =
  system_on_page_def table_on_page_def france_def fetchData_def
  getNumberOfEntries_def buildApiUrl_def renderItems_def render_row_def entries_text_def
  show_int_def show_nat.simps toLocaleLowerCase_def lower_char_def char_of_def bit_0
  URLSearchParams_toString_def form_urlencode_def form_urlencode_char_def percent_byte_def
  trim_def is_white_space_def Let_def
subsection \<open>The next page\<close>

text \<open>
  C1. \<open>handleNextButtonClick\<close> takes the number that \<open>getNumberOfEntries\<close> returns
  and \<open>totalPages\<close>, \<open>Math.ceil\<close> of its quotient by the limit. For a total count,
  an integer that a number holds exactly, \<open>totalPages\<close> is the ceiling of the count
  divided by the limit; it is 0 when the header is absent or the request rejected. When
  \<open>totalPages\<close> is an integer: at or beyond it the object and the view stay as they
  are; below it the page grows by exactly one and the table is refreshed; so a page that
  is not past \<open>totalPages\<close> is not past it afterwards, and no click takes the page
  beyond the larger of the two. For a header that is no count: nothing changes when the
  number is \<open>NaN\<close> or minus infinity, the page grows by one when it is infinity, and
  for any other finite number \<open>totalPages\<close> is the integer that \<open>Math.ceil\<close>
  gives. With a limit of 5 and 12 entries, three clicks from page 1 give pages 2, 3 and 3,
  with the offsets 5 and 10 requested.
\<close>

theorem handleNextButtonClick_last_page:
  assumes "getNumberOfEntries nreply w = (totalEntries, w1)"
    and "totalPages = Math_ceil_quotient totalEntries (limit (table w))"
    and "w' = handleNextButtonClick nreply dreply creply w"
  shows "(nreply = CountResponse (Some (Integer n)) \<longrightarrow>
           totalEntries = Integer n
         \<and> totalPages = Pages \<lceil>real_of_int (Rep_exact_int n) / real_of_int (limit_value (limit (table w)))\<rceil>)
    \<and> (nreply = CountResponse None \<or> nreply = CountRejected msg \<longrightarrow> totalPages = Pages 0)
    \<and> (nreply = CountResponse (Some NaN) \<longrightarrow> totalPages = NotANumber)
    \<and> (nreply = CountResponse (Some PlusInfinity) \<longrightarrow> totalPages = InfinitePages)
    \<and> (nreply = CountResponse (Some MinusInfinity) \<longrightarrow> totalPages = MinusInfinitePages)
    \<and> (nreply = CountResponse (Some (OtherNumber pa pb pc printed)) \<longrightarrow>
           totalPages = Pages (case limit (table w) of Limit5 \<Rightarrow> pa | Limit10 \<Rightarrow> pb | Limit20 \<Rightarrow> pc))
    \<and> (totalPages = Pages k \<and> k \<le> currentPage (table w) \<longrightarrow>
           w' = w1 \<and> table w' = table w \<and> document w' = document w)
    \<and> (totalPages = Pages k \<and> currentPage (table w) < k \<longrightarrow>
           currentPage (table w') = currentPage (table w) + 1
         \<and> w' = fetchData dreply creply
                  (w1\<lparr>table := (table w)\<lparr>currentPage := currentPage (table w) + 1\<rparr>\<rparr>))
    \<and> (totalPages = Pages k \<and> currentPage (table w) \<le> k \<longrightarrow> currentPage (table w') \<le> k)
    \<and> (totalPages = Pages k \<longrightarrow> currentPage (table w') \<le> max (currentPage (table w)) k)
    \<and> (totalPages = NotANumber \<or> totalPages = MinusInfinitePages \<longrightarrow>
           w' = w1 \<and> table w' = table w \<and> document w' = document w)
    \<and> (totalPages = InfinitePages \<longrightarrow>
           currentPage (table w') = currentPage (table w) + 1
         \<and> w' = fetchData dreply creply
                  (w1\<lparr>table := (table w)\<lparr>currentPage := currentPage (table w) + 1\<rparr>\<rparr>))
    \<and> (let click = handleNextButtonClick (CountHeader 12) (Data []) (CountHeader 12);
            s1 = click (system_on_page 1); s2 = click s1; s3 = click s2
        in currentPage (table s1) = 2 \<and> currentPage (table s2) = 3 \<and> currentPage (table s3) = 3
         \<and> network s3 =
             [''http://localhost:3005/countries?_limit=1'',
              ''http://localhost:3005/countries?_limit=5&_start=5'',
              ''http://localhost:3005/countries?_limit=1'',
              ''http://localhost:3005/countries?_limit=1'',
              ''http://localhost:3005/countries?_limit=5&_start=10'',
              ''http://localhost:3005/countries?_limit=1'',
              ''http://localhost:3005/countries?_limit=1''])"
proof -
  have t: "table w1 = table w" and d: "document w1 = document w"
    using assms(1) by (rule getNumberOfEntries_table, rule getNumberOfEntries_document)
  have e: "totalEntries = (case nreply of CountResponse header \<Rightarrow> Number header
                             | CountRejected m \<Rightarrow> Integer (Abs_exact_int 0))"
    using assms(1) by (auto simp: getNumberOfEntries_def Let_def split: count_reply.splits)
  have n: "nreply = CountResponse (Some (Integer n)) \<longrightarrow>
           totalEntries = Integer n
         \<and> totalPages = Pages \<lceil>real_of_int (Rep_exact_int n) / real_of_int (limit_value (limit (table w)))\<rceil>"
    by (simp add: e assms(2))
  have z: "nreply = CountResponse None \<or> nreply = CountRejected msg \<longrightarrow> totalPages = Pages 0"
    by (auto simp: e assms(2))
  have o: "nreply = CountResponse (Some NaN) \<longrightarrow> totalPages = NotANumber"
    "nreply = CountResponse (Some PlusInfinity) \<longrightarrow> totalPages = InfinitePages"
    "nreply = CountResponse (Some MinusInfinity) \<longrightarrow> totalPages = MinusInfinitePages"
    by (simp_all add: e assms(2))
  have f: "nreply = CountResponse (Some (OtherNumber pa pb pc printed)) \<longrightarrow>
           totalPages = Pages (case limit (table w) of Limit5 \<Rightarrow> pa | Limit10 \<Rightarrow> pb | Limit20 \<Rightarrow> pc)"
    by (cases "limit (table w)") (simp_all add: e assms(2))
  have scenario:
    "let click = handleNextButtonClick (CountHeader 12) (Data []) (CountHeader 12);
         s1 = click (system_on_page 1); s2 = click s1; s3 = click s2
     in currentPage (table s1) = 2 \<and> currentPage (table s2) = 3 \<and> currentPage (table s3) = 3
      \<and> network s3 =
          [''http://localhost:3005/countries?_limit=1'',
           ''http://localhost:3005/countries?_limit=5&_start=5'',
           ''http://localhost:3005/countries?_limit=1'',
           ''http://localhost:3005/countries?_limit=1'',
           ''http://localhost:3005/countries?_limit=5&_start=10'',
           ''http://localhost:3005/countries?_limit=1'',
           ''http://localhost:3005/countries?_limit=1'']"
    by (simp add: handleNextButtonClick_def eval_simps)
  have w': "w' = (if less_pages (currentPage (table w)) totalPages
                  then fetchData dreply creply
                         (w1\<lparr>table := (table w)\<lparr>currentPage := currentPage (table w) + 1\<rparr>\<rparr>)
                  else w1)"
    using assms by (simp add: handleNextButtonClick_def t)
  have stay: "w' = w1 \<and> table w' = table w \<and> document w' = document w"
    if "\<not> less_pages (currentPage (table w)) totalPages"
    using that w' t d by simp
  have go: "currentPage (table w') = currentPage (table w) + 1
         \<and> w' = fetchData dreply creply
                  (w1\<lparr>table := (table w)\<lparr>currentPage := currentPage (table w) + 1\<rparr>\<rparr>)"
    if "less_pages (currentPage (table w)) totalPages"
    using that w' by (simp add: fetchData_table)
  have a: "totalPages = Pages k \<and> k \<le> currentPage (table w) \<longrightarrow>
           w' = w1 \<and> table w' = table w \<and> document w' = document w"
    using stay by auto
  have b: "totalPages = Pages k \<and> currentPage (table w) < k \<longrightarrow>
           currentPage (table w') = currentPage (table w) + 1
         \<and> w' = fetchData dreply creply
                  (w1\<lparr>table := (table w)\<lparr>currentPage := currentPage (table w) + 1\<rparr>\<rparr>)"
    using go by auto
  have c: "totalPages = Pages k \<longrightarrow> currentPage (table w') \<le> max (currentPage (table w)) k"
  proof
    assume p: "totalPages = Pages k"
    show "currentPage (table w') \<le> max (currentPage (table w)) k"
    proof (cases "currentPage (table w) < k")
      case True
      with p have "less_pages (currentPage (table w)) totalPages" by simp
      from go [OF this] have "currentPage (table w') = currentPage (table w) + 1" by (rule conjunct1)
      with True show ?thesis by simp
    next
      case False
      with p have "\<not> less_pages (currentPage (table w)) totalPages" by simp
      from stay [OF this] have "table w' = table w" by blast
      then show ?thesis by simp
    qed
  qed
  have c': "totalPages = Pages k \<and> currentPage (table w) \<le> k \<longrightarrow> currentPage (table w') \<le> k"
    using c by auto
  have g: "totalPages = NotANumber \<or> totalPages = MinusInfinitePages \<longrightarrow>
           w' = w1 \<and> table w' = table w \<and> document w' = document w"
    using stay by auto
  have h: "totalPages = InfinitePages \<longrightarrow>
           currentPage (table w') = currentPage (table w) + 1
         \<and> w' = fetchData dreply creply
                  (w1\<lparr>table := (table w)\<lparr>currentPage := currentPage (table w) + 1\<rparr>\<rparr>)"
    using go by auto
  from n z o f a b c' c g h scenario show ?thesis
    by (intro conjI)
qed

theorem handleNextButtonClick_last_page_witness:
  "getNumberOfEntries (CountHeader 12) (system_on_page 3)
     = (Integer (Abs_exact_int 12),
        (system_on_page 3)\<lparr>network := [''http://localhost:3005/countries?_limit=1'']\<rparr>)
   \<and> Pages 3 = Math_ceil_quotient (Integer (Abs_exact_int 12)) (limit (table (system_on_page 3)))
   \<and> handleNextButtonClick (CountHeader 12) (Data []) (CountHeader 12) (system_on_page 3)
       = (system_on_page 3)\<lparr>network := [''http://localhost:3005/countries?_limit=1'']\<rparr>
   \<and> currentPage (table (handleNextButtonClick (CountHeader 12) (Data [])
        (CountHeader 12) (system_on_page 3))) \<le> 3
   \<and> currentPage (table (handleNextButtonClick (CountHeader 12) (Data [])
        (CountHeader 12) (system_on_page 1))) = 1 + 1
   \<and> currentPage (table (handleNextButtonClick (CountResponse (Some NaN)) (Data [])
        (CountHeader 12) (system_on_page 1))) = 1
   \<and> currentPage (table (handleNextButtonClick (CountResponse (Some PlusInfinity)) (Data [])
        (CountHeader 12) (system_on_page 3))) = 3 + 1"
proof -
  let ?click = "handleNextButtonClick (CountHeader 12) (Data []) (CountHeader 12)"
  let ?w1 = "\<lambda>p. (system_on_page p)\<lparr>network := [''http://localhost:3005/countries?_limit=1'']\<rparr>"
  have g: "getNumberOfEntries (CountResponse (Some x)) (system_on_page p) = (x, ?w1 p)" for p x
    by (simp add: getNumberOfEntries_def system_on_page_def table_on_page_def)
  have c: "Pages 3 = Math_ceil_quotient (Integer (Abs_exact_int 12)) (limit (table (system_on_page p)))" for p
    by (simp add: system_on_page_def table_on_page_def)
  have p3: "currentPage (table (system_on_page 3)) = 3" and p1: "currentPage (table (system_on_page 1)) = 1"
    by (simp_all add: system_on_page_def table_on_page_def)
  from handleNextButtonClick_last_page
    [where w = "system_on_page 3" and dreply = "Data []" and creply = "CountHeader 12"
       and k = 3 and n = "Abs_exact_int 12" and msg = "[]" and pa = 0 and pb = 0 and pc = 0
       and printed = "[]", OF g c refl]
  have at3: "?click (system_on_page 3) = ?w1 3" "currentPage (table (?click (system_on_page 3))) \<le> 3"
    by (simp_all add: p3 fetchData_table)
  from handleNextButtonClick_last_page
    [where w = "system_on_page 1" and dreply = "Data []" and creply = "CountHeader 12"
       and k = 3 and n = "Abs_exact_int 12" and msg = "[]" and pa = 0 and pb = 0 and pc = 0
       and printed = "[]", OF g c refl]
  have at1: "currentPage (table (?click (system_on_page 1))) = 1 + 1"
    by (simp add: p1 fetchData_table)
  from handleNextButtonClick_last_page
    [where w = "system_on_page 1" and dreply = "Data []" and creply = "CountHeader 12"
       and k = 3 and n = "Abs_exact_int 12" and msg = "[]" and pa = 0 and pb = 0 and pc = 0
       and printed = "[]", OF g refl refl, of NaN]
  have nan: "currentPage (table (handleNextButtonClick (CountResponse (Some NaN)) (Data [])
        (CountHeader 12) (system_on_page 1))) = 1"
    by (simp add: p1 fetchData_table)
  from handleNextButtonClick_last_page
    [where w = "system_on_page 3" and dreply = "Data []" and creply = "CountHeader 12"
       and k = 3 and n = "Abs_exact_int 12" and msg = "[]" and pa = 0 and pb = 0 and pc = 0
       and printed = "[]", OF g refl refl, of PlusInfinity]
  have inf: "currentPage (table (handleNextButtonClick (CountResponse (Some PlusInfinity)) (Data [])
        (CountHeader 12) (system_on_page 3))) = 3 + 1"
    by (simp add: p3 fetchData_table)
  from g [of "Integer (Abs_exact_int 12)" 3] c [of 3] at3 at1 nan inf show ?thesis by (intro conjI)
qed

subsection \<open>A refresh that fails\<close>

text \<open>
  C2, as the claim states it, fails when the page arrives and the request for the total
  count is rejected: the rows of the new page are in the \<open>tbody\<close>, and the summary is
  rewritten with a total of 0.
\<close>

theorem fetchData_count_rejected_counterexample:
  "tbody (document (fetchData (Data [france]) (CountRejected ''Failed to fetch'') (system_on_page 1)))
     = Some [\<lparr>flag_code = ''fr'', name_cell = ''France'', capital_cell = ''Paris'',
              currency_cell = ''Euro'', language_cell = ''French''\<rparr>]
   \<and> entriesAmount (document (fetchData (Data [france]) (CountRejected ''Failed to fetch'') (system_on_page 1)))
     = Some ''Showing 1 to 5 of 0 Entries''
   \<and> document (fetchData (Data [france]) (CountRejected ''Failed to fetch'') (system_on_page 1))
     \<noteq> document (system_on_page 1)
   \<and> console (fetchData (Data [france]) (CountRejected ''Failed to fetch'') (system_on_page 1))
     = [(''Error fetching total amount of API entries:'', ''Failed to fetch'')]"
  by (simp add: eval_simps)

text \<open>
  C2, amended. A refresh never changes the fields of the object. When the request for
  the page is rejected, or its body does not parse, \<open>fetchData\<close> writes one line on
  the console, leaves the rows and the summary as they were, and has made this one request
  only. When the page arrives, the span exists and the request for the total count is
  rejected, \<open>getNumberOfEntries\<close> writes one line on the console, and the view is
  updated: the rows are those of the new page (when there is a \<open>tbody\<close>) and the
  summary gives a total of 0; the two requests are made once each.
\<close>

theorem fetchData_failure:
  assumes "url = buildApiUrl (table w)
       (apiUrl (table w) @ ''?_limit='' @ show_int (limit_value (limit (table w))) @ ''&_start=''
          @ show_int ((currentPage (table w) - 1) * limit_value (limit (table w))))"
  shows "table (fetchData dreply creply w) = table w
    \<and> (dreply = FetchRejected msg \<or> dreply = JsonRejected msg \<longrightarrow>
           document (fetchData dreply creply w) = document w
         \<and> console (fetchData dreply creply w) = console w @ [(''Error fetching data from API:'', msg)]
         \<and> network (fetchData dreply creply w) = network w @ [url])
    \<and> (entriesAmount (document w) = Some old \<longrightarrow>
           tbody (document (fetchData (Data countries) (CountRejected msg) w))
             = (case tbody (document w) of None \<Rightarrow> None | Some rows \<Rightarrow> Some (map render_row countries))
         \<and> entriesAmount (document (fetchData (Data countries) (CountRejected msg) w))
             = Some (''Showing '' @ show_int ((currentPage (table w) - 1) * limit_value (limit (table w)) + 1)
                  @ '' to '' @ show_int ((currentPage (table w) - 1) * limit_value (limit (table w))
                                          + limit_value (limit (table w)))
                  @ '' of 0 Entries'')
         \<and> console (fetchData (Data countries) (CountRejected msg) w)
             = console w @ [(''Error fetching total amount of API entries:'', msg)]
         \<and> network (fetchData (Data countries) (CountRejected msg) w)
             = network w @ [url, apiUrl (table w) @ ''?_limit=1''])"
proof (intro conjI)
  show "table (fetchData dreply creply w) = table w"
    by (rule fetchData_table)
  show "dreply = FetchRejected msg \<or> dreply = JsonRejected msg \<longrightarrow>
           document (fetchData dreply creply w) = document w
         \<and> console (fetchData dreply creply w) = console w @ [(''Error fetching data from API:'', msg)]
         \<and> network (fetchData dreply creply w) = network w @ [url]"
    using assms by (auto simp: fetchData_def Let_def)
  show "entriesAmount (document w) = Some old \<longrightarrow>
           tbody (document (fetchData (Data countries) (CountRejected msg) w))
             = (case tbody (document w) of None \<Rightarrow> None | Some rows \<Rightarrow> Some (map render_row countries))
         \<and> entriesAmount (document (fetchData (Data countries) (CountRejected msg) w))
             = Some (''Showing '' @ show_int ((currentPage (table w) - 1) * limit_value (limit (table w)) + 1)
                  @ '' to '' @ show_int ((currentPage (table w) - 1) * limit_value (limit (table w))
                                          + limit_value (limit (table w)))
                  @ '' of 0 Entries'')
         \<and> console (fetchData (Data countries) (CountRejected msg) w)
             = console w @ [(''Error fetching total amount of API entries:'', msg)]
         \<and> network (fetchData (Data countries) (CountRejected msg) w)
             = network w @ [url, apiUrl (table w) @ ''?_limit=1'']"
    using assms
    by (auto simp: fetchData_def getNumberOfEntries_def renderItems_def
          entries_text_def show_int_0 Let_def split: option.split)
qed

theorem fetchData_failure_witness:
  "document (fetchData (JsonRejected ''Unexpected token'') (CountHeader 12) (system_on_page 3))
     = document (system_on_page 3)
   \<and> console (fetchData (JsonRejected ''Unexpected token'') (CountHeader 12) (system_on_page 3))
     = [(''Error fetching data from API:'', ''Unexpected token'')]
   \<and> network (fetchData (JsonRejected ''Unexpected token'') (CountHeader 12) (system_on_page 3))
     = [''http://localhost:3005/countries?_limit=5&_start=10'']
   \<and> entriesAmount (document (system_on_page 3)) = Some []
   \<and> entriesAmount (document (fetchData (Data [france]) (CountRejected ''Failed to fetch'') (system_on_page 3)))
     = Some ''Showing 11 to 15 of 0 Entries''"
proof -
  have u: "''http://localhost:3005/countries?_limit=5&_start=10'' =
      buildApiUrl (table (system_on_page 3))
       (apiUrl (table (system_on_page 3)) @ ''?_limit=''
          @ show_int (limit_value (limit (table (system_on_page 3)))) @ ''&_start=''
          @ show_int ((currentPage (table (system_on_page 3)) - 1)
                        * limit_value (limit (table (system_on_page 3)))))"
    by (simp add: system_on_page_def table_on_page_def buildApiUrl_def show_int_def show_nat.simps)
  have e: "entriesAmount (document (system_on_page 3)) = Some []"
    by (simp add: system_on_page_def)
  have s: "show_int ((currentPage (table (system_on_page 3)) - 1)
                        * limit_value (limit (table (system_on_page 3))) + 1) = ''11''"
    "show_int ((currentPage (table (system_on_page 3)) - 1)
                        * limit_value (limit (table (system_on_page 3)))
                 + limit_value (limit (table (system_on_page 3)))) = ''15''"
    "console (system_on_page 3) = []" "network (system_on_page 3) = []"
    by (simp_all add: system_on_page_def table_on_page_def show_int_def show_nat.simps)
  from fetchData_failure
    [OF u, where dreply = "JsonRejected ''Unexpected token''" and msg = "''Unexpected token''"
       and creply = "CountHeader 12" and old = "[]" and countries = "[france]"]
    fetchData_failure
    [OF u, where dreply = "Data [france]" and msg = "''Failed to fetch''"
       and creply = "CountRejected ''Failed to fetch''" and old = "[]" and countries = "[france]"]
    e
  show ?thesis
    by (simp add: s)
qed

subsection \<open>The search inputs\<close>

text \<open>
  C3. When the input element exists, \<open>handleInput\<close> returns normally. With a trimmed
  text of at least two characters and an index from 1 to 4, \<open>searchParams\<close> becomes
  the single pair of the key of that index and the trimmed text, whatever it was before;
  with a shorter trimmed text it becomes empty, whatever it was before. In both cases the
  page is 1, the other fields keep their values, and the table is refreshed, the request
  having the offset 0.
\<close>

theorem handleInput_filter:
  "\<exists>w'. handleInput index (Some v) dreply creply w = Inr w'
     \<and> (2 \<le> length (trim v)
          \<and> (index, key) \<in> set [(1, ''name_like''), (2, ''capital_like''),
                                 (3, ''currency.name_like''), (4, ''language.name_like'')]
        \<longrightarrow> searchParams (table w') = [(key, trim v)])
     \<and> (length (trim v) < 2 \<longrightarrow> searchParams (table w') = [])
     \<and> currentPage (table w') = 1
     \<and> table w' = (table w)\<lparr>searchParams := searchParams (table w'), currentPage := 1\<rparr>
     \<and> w' = fetchData dreply creply (w\<lparr>table := table w'\<rparr>)
     \<and> prefix (network w @ [buildApiUrl (table w')
                  (apiUrl (table w) @ ''?_limit='' @ show_int (limit_value (limit (table w)))
                     @ ''&_start=0'')])
          (network w')"
proof -
  define t1 where "t1 =
     (if length (trim v) \<ge> 2 then
        (if index = 1 then (table w)\<lparr>searchParams := [(''name_like'', trim v)]\<rparr>
         else if index = 2 then (table w)\<lparr>searchParams := [(''capital_like'', trim v)]\<rparr>
         else if index = 3 then (table w)\<lparr>searchParams := [(''currency.name_like'', trim v)]\<rparr>
         else if index = 4 then (table w)\<lparr>searchParams := [(''language.name_like'', trim v)]\<rparr>
         else table w)
      else (table w)\<lparr>searchParams := []\<rparr>)"
  define w' where "w' = fetchData dreply creply (w\<lparr>table := t1\<lparr>currentPage := 1\<rparr>\<rparr>)"
  have r: "handleInput index (Some v) dreply creply w = Inr w'"
    by (simp add: handleInput_def w'_def t1_def Let_def)
  have t: "table w' = t1\<lparr>currentPage := 1\<rparr>"
    by (simp add: w'_def fetchData_table)
  have a: "2 \<le> length (trim v)
          \<and> (index, key) \<in> set [(1, ''name_like''), (2, ''capital_like''),
                                 (3, ''currency.name_like''), (4, ''language.name_like'')]
        \<longrightarrow> searchParams (table w') = [(key, trim v)]"
    by (auto simp: t t1_def)
  have b: "length (trim v) < 2 \<longrightarrow> searchParams (table w') = []"
    by (simp add: t t1_def)
  have c: "table w' = (table w)\<lparr>searchParams := searchParams (table w'), currentPage := 1\<rparr>"
    by (simp add: t t1_def)
  have d: "w' = fetchData dreply creply (w\<lparr>table := table w'\<rparr>)"
    by (simp add: t) (simp add: w'_def)
  have k: "apiUrl (table w') = apiUrl (table w)" "limit (table w') = limit (table w)"
    "currentPage (table w') = 1"
    by (simp_all add: t t1_def)
  have "prefix (network (w\<lparr>table := table w'\<rparr>) @ [buildApiUrl (table (w\<lparr>table := table w'\<rparr>))
       (apiUrl (table (w\<lparr>table := table w'\<rparr>)) @ ''?_limit=''
          @ show_int (limit_value (limit (table (w\<lparr>table := table w'\<rparr>)))) @ ''&_start=''
          @ show_int ((currentPage (table (w\<lparr>table := table w'\<rparr>)) - 1)
                        * limit_value (limit (table (w\<lparr>table := table w'\<rparr>)))))])
     (network (fetchData dreply creply (w\<lparr>table := table w'\<rparr>)))"
    by (rule fetchData_network)
  then have e: "prefix (network w @ [buildApiUrl (table w')
                  (apiUrl (table w) @ ''?_limit='' @ show_int (limit_value (limit (table w)))
                     @ ''&_start=0'')])
          (network w')"
    unfolding d [symmetric] by (simp add: k show_int_0)
  from r a b c d e k show ?thesis by blast
qed

theorem handleInput_filter_witness:
  "\<exists>w'. handleInput 1 (Some ''  fr '') (Data [france]) (CountHeader 12)
            ((system_on_page 3)\<lparr>table := (table_on_page 3)\<lparr>searchParams := [(''capital_like'', ''par'')]\<rparr>\<rparr>)
          = Inr w'
      \<and> searchParams (table w') = [(''name_like'', ''fr'')]
      \<and> currentPage (table w') = 1
      \<and> prefix [''http://localhost:3005/countries?_limit=5&_start=0&name_like=fr''] (network w')"
proof -
  let ?w = "(system_on_page 3)\<lparr>table := (table_on_page 3)\<lparr>searchParams := [(''capital_like'', ''par'')]\<rparr>\<rparr>"
  have l: "trim ''  fr '' = ''fr''"
    by (simp add: trim_def is_white_space_def)
  obtain w' where r: "handleInput 1 (Some ''  fr '') (Data [france]) (CountHeader 12) ?w = Inr w'"
    and a: "2 \<le> length (trim ''  fr '')
          \<and> (1, ''name_like'') \<in> set [(1::int, ''name_like''), (2, ''capital_like''),
                                 (3, ''currency.name_like''), (4, ''language.name_like'')]
        \<longrightarrow> searchParams (table w') = [(''name_like'', trim ''  fr '')]"
    and p: "currentPage (table w') = 1"
    and t: "table w' = (table ?w)\<lparr>searchParams := searchParams (table w'), currentPage := 1\<rparr>"
    and n: "prefix (network ?w @ [buildApiUrl (table w')
                  (apiUrl (table ?w) @ ''?_limit='' @ show_int (limit_value (limit (table ?w)))
                     @ ''&_start=0'')])
          (network w')"
    using handleInput_filter
      [of 1 "''  fr ''" "Data [france]" "CountHeader 12" ?w "''name_like''"]
    by (elim exE conjE)
  from a have s: "searchParams (table w') = [(''name_like'', ''fr'')]"
    by (simp add: l)
  have t': "table w' = (table_on_page 3)\<lparr>searchParams := [(''name_like'', ''fr'')], currentPage := 1\<rparr>"
    using t unfolding s by simp
  have u: "network ?w @ [buildApiUrl (table w')
                  (apiUrl (table ?w) @ ''?_limit='' @ show_int (limit_value (limit (table ?w)))
                     @ ''&_start=0'')]
           = [''http://localhost:3005/countries?_limit=5&_start=0&name_like=fr'']"
    unfolding t' by (simp add: eval_simps)
  from n have "prefix [''http://localhost:3005/countries?_limit=5&_start=0&name_like=fr''] (network w')"
    unfolding u .
  with r s p show ?thesis by blast
qed

subsection \<open>Sorting\<close>

text \<open>
  C4, as the claim states it, fails in a state whose direction is descending: after the
  constructor and two clicks on the column \<open>name\<close> that column is sorted descending,
  and two more clicks on the same column leave the direction descending, not ascending.
\<close>

theorem handleSortClick_twice_counterexample:
  "sortColumn (table (run [ColumnClick (Some ''name'') (Data []) (CountHeader 12),
                            ColumnClick (Some ''name'') (Data []) (CountHeader 12)]
        (new_CountryTable ''http://localhost:3005/countries''
           \<lparr>tbody = Some [], entriesAmount = Some []\<rparr> (Data []) (CountHeader 12))))
     = Some ''name''
   \<and> sortDirection (table (run [ColumnClick (Some ''name'') (Data []) (CountHeader 12),
                            ColumnClick (Some ''name'') (Data []) (CountHeader 12)]
        (new_CountryTable ''http://localhost:3005/countries''
           \<lparr>tbody = Some [], entriesAmount = Some []\<rparr> (Data []) (CountHeader 12))))
     = desc
   \<and> sortDirection (table
        (handleSortClick ''name'' (Data []) (CountHeader 12)
          (handleSortClick ''name'' (Data []) (CountHeader 12)
            (run [ColumnClick (Some ''name'') (Data []) (CountHeader 12),
                  ColumnClick (Some ''name'') (Data []) (CountHeader 12)]
              (new_CountryTable ''http://localhost:3005/countries''
                 \<lparr>tbody = Some [], entriesAmount = Some []\<rparr> (Data []) (CountHeader 12))))))
     \<noteq> asc"
  by (simp add: new_CountryTable_def handleSortClick_def fetchData_table Let_def)

text \<open>
  C4, amended. \<open>handleSortClick\<close> on the current sort column toggles the direction,
  so two calls on that column give back the direction there was before them (ascending
  when it was ascending, descending when it was descending); on any other column it makes
  that column the sort column with the direction ascending. In all cases the page, the
  limit and the search stay as they are and the table is refreshed.
\<close>

theorem handleSortClick_direction:
  "sortColumn (table (handleSortClick column dreply creply w)) = Some column
   \<and> sortDirection (table (handleSortClick column dreply creply w))
       = (if sortColumn (table w) = Some column
          then (if sortDirection (table w) = asc then desc else asc)
          else asc)
   \<and> (sortColumn (table w) = Some column \<longrightarrow>
        sortDirection (table (handleSortClick column dreply' creply'
                                (handleSortClick column dreply creply w)))
          = sortDirection (table w))
   \<and> (sortColumn (table w) \<noteq> Some column \<longrightarrow>
        sortDirection (table (handleSortClick column dreply creply w)) = asc)
   \<and> currentPage (table (handleSortClick column dreply creply w)) = currentPage (table w)
   \<and> limit (table (handleSortClick column dreply creply w)) = limit (table w)
   \<and> searchParams (table (handleSortClick column dreply creply w)) = searchParams (table w)
   \<and> apiUrl (table (handleSortClick column dreply creply w)) = apiUrl (table w)
   \<and> handleSortClick column dreply creply w
       = fetchData dreply creply (w\<lparr>table := table (handleSortClick column dreply creply w)\<rparr>)"
proof -
  have t: "table (handleSortClick c dr cr s)
       = (table s)\<lparr>sortDirection := (if Some c = sortColumn (table s)
                                        then (if sortDirection (table s) = asc then desc else asc)
                                        else asc),
                    sortColumn := Some c\<rparr>" for c dr cr s
    by (simp add: handleSortClick_def fetchData_table Let_def)
  have twice: "sortColumn (table w) = Some column \<longrightarrow>
        sortDirection (table (handleSortClick column dreply' creply'
                                (handleSortClick column dreply creply w)))
          = sortDirection (table w)"
    by (cases "sortDirection (table w)") (simp_all add: t)
  have refresh: "handleSortClick column dreply creply w
       = fetchData dreply creply (w\<lparr>table := table (handleSortClick column dreply creply w)\<rparr>)"
    unfolding t by (simp add: handleSortClick_def Let_def)
  have col: "sortColumn (table (handleSortClick column dreply creply w)) = Some column"
    and dir: "sortDirection (table (handleSortClick column dreply creply w))
       = (if sortColumn (table w) = Some column
          then (if sortDirection (table w) = asc then desc else asc)
          else asc)"
    and other: "sortColumn (table w) \<noteq> Some column \<longrightarrow>
        sortDirection (table (handleSortClick column dreply creply w)) = asc"
    and frame: "currentPage (table (handleSortClick column dreply creply w)) = currentPage (table w)"
      "limit (table (handleSortClick column dreply creply w)) = limit (table w)"
      "searchParams (table (handleSortClick column dreply creply w)) = searchParams (table w)"
      "apiUrl (table (handleSortClick column dreply creply w)) = apiUrl (table w)"
    unfolding t by auto
  from col dir twice other frame refresh show ?thesis
    by (intro conjI)
qed

theorem handleSortClick_direction_witness:
  "sortColumn (table ((system_on_page 3)\<lparr>table := (table_on_page 3)\<lparr>sortColumn := Some ''name''\<rparr>\<rparr>))
     = Some ''name''
   \<and> sortDirection (table (handleSortClick ''name'' (Data []) (CountResponse None)
        ((system_on_page 3)\<lparr>table := (table_on_page 3)\<lparr>sortColumn := Some ''name''\<rparr>\<rparr>))) = desc
   \<and> sortDirection (table (handleSortClick ''name'' (Data []) (CountResponse None)
        (handleSortClick ''name'' (Data []) (CountResponse None)
          ((system_on_page 3)\<lparr>table := (table_on_page 3)\<lparr>sortColumn := Some ''name''\<rparr>\<rparr>)))) = asc
   \<and> sortColumn (table (system_on_page 3)) \<noteq> Some ''capital''
   \<and> sortDirection (table (handleSortClick ''capital'' (Data []) (CountResponse None) (system_on_page 3))) = asc
   \<and> currentPage (table (handleSortClick ''capital'' (Data []) (CountResponse None) (system_on_page 3))) = 3"
proof -
  let ?w = "(system_on_page 3)\<lparr>table := (table_on_page 3)\<lparr>sortColumn := Some ''name''\<rparr>\<rparr>"
  have h: "sortColumn (table ?w) = Some ''name''" "sortDirection (table ?w) = asc"
    "sortColumn (table (system_on_page 3)) \<noteq> Some ''capital''"
    "currentPage (table (system_on_page 3)) = 3"
    by (simp_all add: system_on_page_def table_on_page_def)
  from handleSortClick_direction
         [of "''name''" "Data []" "CountResponse None" ?w "Data []" "CountResponse None"]
  have a: "sortDirection (table (handleSortClick ''name'' (Data []) (CountResponse None) ?w)) = desc"
    "sortDirection (table (handleSortClick ''name'' (Data []) (CountResponse None)
        (handleSortClick ''name'' (Data []) (CountResponse None) ?w))) = asc"
    unfolding h by simp_all
  from handleSortClick_direction
         [of "''capital''" "Data []" "CountResponse None" "system_on_page 3" "Data []" "CountResponse None"]
  have b: "sortDirection (table (handleSortClick ''capital'' (Data []) (CountResponse None) (system_on_page 3))) = asc"
    "currentPage (table (handleSortClick ''capital'' (Data []) (CountResponse None) (system_on_page 3))) = 3"
    using h(3) unfolding h(4) by simp_all
  from h(1,3) a b show ?thesis by blast
qed

subsection \<open>The request of a refresh\<close>

lemma dispatch_sortColumn:
  assumes "sortColumn (table w) \<noteq> Some []"
  shows "sortColumn (table (dispatch e w)) \<noteq> Some []"
proof (cases e)
  case (SelectChange v dr cr)
  with assms show ?thesis by (simp add: handleSelectChange_def fetchData_table)
next
  case (Input i input dr cr)
  with assms show ?thesis
    by (cases input) (simp_all add: handleInput_def fetchData_table Let_def)
next
  case (PrevClick dr cr)
  with assms show ?thesis by (simp add: handlePrevButtonClick_def fetchData_table)
next
  case (NextClick nr dr cr)
  with assms show ?thesis
    by (simp add: handleNextButtonClick_def getNumberOfEntries_def fetchData_table Let_def
        split: count_reply.split)
next
  case (ColumnClick columnName dr cr)
  with assms show ?thesis
    by (simp add: handleSortClick_def fetchData_table Let_def split: option.split)
qed

lemma run_sortColumn:
  "sortColumn (table w) \<noteq> Some [] \<Longrightarrow> sortColumn (table (run es w)) \<noteq> Some []"
  by (induction es arbitrary: w) (simp_all add: dispatch_sortColumn)
text \<open>
  C5. The first thing \<open>fetchData\<close> does is one request, whose URL is the address of
  the endpoint, the limit, the start index \<open>(currentPage - 1) * limit\<close>, then, when
  \<open>searchParams\<close> is not empty, its pairs (for a single pair the encoded field, \<open>=\<close>
  and the encoded text), then, when there is a sort column that is not the empty string, the
  column and \<open>asc\<close> or \<open>desc\<close> as the direction of the state is; after the
  constructor and any events the sort column is never the empty string. Two systems with
  the same fields of the object make the same request, whatever their view, console,
  earlier requests and replies are. Three requests are written out: page 3 of 10 with a
  search and a descending sort, page 1 of 5 with an ascending sort only, and page 12 of 20
  with a search only.
\<close>

theorem fetchData_request:
  "prefix
     (network w @
        [apiUrl (table w)
           @ ''?_limit='' @ show_int (limit_value (limit (table w)))
           @ ''&_start='' @ show_int ((currentPage (table w) - 1) * limit_value (limit (table w)))
           @ (if searchParams (table w) = [] then []
              else ''&'' @ URLSearchParams_toString (searchParams (table w)))
           @ (case sortColumn (table w) of
                None \<Rightarrow> []
              | Some column \<Rightarrow>
                  if column = [] then []
                  else ''&_sort='' @ column @ ''&_order=''
                         @ (case sortDirection (table w) of asc \<Rightarrow> ''asc'' | desc \<Rightarrow> ''desc''))])
     (network (fetchData dreply creply w))
   \<and> URLSearchParams_toString [(field, text)] = form_urlencode field @ ''='' @ form_urlencode text
   \<and> URLSearchParams_toString [(''name_like'', ''a b''), (''capital_like'', ''c&d'')]
       = ''name_like=a+b&capital_like=c%26d''
   \<and> (table w2 = table w \<longrightarrow>
        network (fetchData dreply2 creply2 w2) ! length (network w2)
          = network (fetchData dreply creply w) ! length (network w))
   \<and> sortColumn (table (run events (new_CountryTable address d dreply0 creply0))) \<noteq> Some []
   \<and> network (fetchData (FetchRejected ''x'') (CountResponse None)
        \<lparr>table = \<lparr>apiUrl = ''http://h/c'', currentPage = 3, limit = Limit10,
                    searchParams = [(''name_like'', ''fr a/'')],
                    sortColumn = Some ''name'', sortDirection = desc\<rparr>,
         document = \<lparr>tbody = None, entriesAmount = None\<rparr>, console = [], network = []\<rparr>)
       = [''http://h/c?_limit=10&_start=20&name_like=fr+a%2F&_sort=name&_order=desc'']
   \<and> network (fetchData (FetchRejected ''x'') (CountResponse None)
        \<lparr>table = \<lparr>apiUrl = ''http://h/c'', currentPage = 1, limit = Limit5,
                    searchParams = [],
                    sortColumn = Some ''capital'', sortDirection = asc\<rparr>,
         document = \<lparr>tbody = None, entriesAmount = None\<rparr>, console = [], network = []\<rparr>)
       = [''http://h/c?_limit=5&_start=0&_sort=capital&_order=asc'']
   \<and> network (fetchData (FetchRejected ''x'') (CountResponse None)
        \<lparr>table = \<lparr>apiUrl = ''http://h/c'', currentPage = 12, limit = Limit20,
                    searchParams = [(''currency.name_like'', [CHR ''S'', CHR 0xE3, CHR ''o'', CHR ''~'', CHR ''*''])],
                    sortColumn = None, sortDirection = desc\<rparr>,
         document = \<lparr>tbody = None, entriesAmount = None\<rparr>, console = [], network = []\<rparr>)
       = [''http://h/c?_limit=20&_start=220&currency.name_like=S%C3%A3o%7E*'']"
proof -
  let ?url = "\<lambda>t. apiUrl t
           @ ''?_limit='' @ show_int (limit_value (limit t))
           @ ''&_start='' @ show_int ((currentPage t - 1) * limit_value (limit t))
           @ (if searchParams t = [] then []
              else ''&'' @ URLSearchParams_toString (searchParams t))
           @ (case sortColumn t of
                None \<Rightarrow> []
              | Some column \<Rightarrow>
                  if column = [] then []
                  else ''&_sort='' @ column @ ''&_order=''
                         @ (case sortDirection t of asc \<Rightarrow> ''asc'' | desc \<Rightarrow> ''desc''))"
  have dt: "direction_text dir = (case dir of asc \<Rightarrow> ''asc'' | desc \<Rightarrow> ''desc'')" for dir
    by (cases dir) simp_all
  have b: "buildApiUrl t (apiUrl t @ ''?_limit='' @ show_int (limit_value (limit t)) @ ''&_start=''
          @ show_int ((currentPage t - 1) * limit_value (limit t))) = ?url t" for t
    by (simp add: buildApiUrl_def dt Let_def split: option.split)
  have p: "prefix (network s @ [?url (table s)]) (network (fetchData dr cr s))" for s dr cr
    using fetchData_network [of s dr cr] unfolding b .
  have n: "network (fetchData dr cr s) ! length (network s) = ?url (table s)" for s dr cr
    using p [of s dr cr] by (auto simp: prefix_def nth_append)
  have u: "URLSearchParams_toString [(field, text)] = form_urlencode field @ ''='' @ form_urlencode text"
    by (simp add: URLSearchParams_toString_def)
  have same: "table w2 = table w \<longrightarrow>
        network (fetchData dreply2 creply2 w2) ! length (network w2)
          = network (fetchData dreply creply w) ! length (network w)"
  proof
    assume e: "table w2 = table w"
    show "network (fetchData dreply2 creply2 w2) ! length (network w2)
          = network (fetchData dreply creply w) ! length (network w)"
      unfolding n e by (rule refl)
  qed
  have inv: "sortColumn (table (run events (new_CountryTable address d dreply0 creply0))) \<noteq> Some []"
    by (rule run_sortColumn) (simp add: new_CountryTable_def fetchData_table)
  have x1: "network (fetchData (FetchRejected ''x'') (CountResponse None)
        \<lparr>table = \<lparr>apiUrl = ''http://h/c'', currentPage = 3, limit = Limit10,
                    searchParams = [(''name_like'', ''fr a/'')],
                    sortColumn = Some ''name'', sortDirection = desc\<rparr>,
         document = \<lparr>tbody = None, entriesAmount = None\<rparr>, console = [], network = []\<rparr>)
       = [''http://h/c?_limit=10&_start=20&name_like=fr+a%2F&_sort=name&_order=desc'']"
    by (simp add: eval_simps)
  have x2: "network (fetchData (FetchRejected ''x'') (CountResponse None)
        \<lparr>table = \<lparr>apiUrl = ''http://h/c'', currentPage = 1, limit = Limit5,
                    searchParams = [],
                    sortColumn = Some ''capital'', sortDirection = asc\<rparr>,
         document = \<lparr>tbody = None, entriesAmount = None\<rparr>, console = [], network = []\<rparr>)
       = [''http://h/c?_limit=5&_start=0&_sort=capital&_order=asc'']"
    by (simp add: eval_simps)
  have x3: "network (fetchData (FetchRejected ''x'') (CountResponse None)
        \<lparr>table = \<lparr>apiUrl = ''http://h/c'', currentPage = 12, limit = Limit20,
                    searchParams = [(''currency.name_like'', [CHR ''S'', CHR 0xE3, CHR ''o'', CHR ''~'', CHR ''*''])],
                    sortColumn = None, sortDirection = desc\<rparr>,
         document = \<lparr>tbody = None, entriesAmount = None\<rparr>, console = [], network = []\<rparr>)
       = [''http://h/c?_limit=20&_start=220&currency.name_like=S%C3%A3o%7E*'']"
    by (simp add: eval_simps)
  have u2: "URLSearchParams_toString [(''name_like'', ''a b''), (''capital_like'', ''c&d'')]
       = ''name_like=a+b&capital_like=c%26d''"
    by (simp add: eval_simps)
  from p [of w dreply creply] u u2 same inv x1 x2 x3 show ?thesis
    by (intro conjI)
qed

theorem fetchData_request_witness:
  "prefix [''http://h/c?_limit=10&_start=20&name_like=fr+a%2F&_sort=name&_order=desc'']
     (network (fetchData (Data []) (CountHeader 40)
        \<lparr>table = \<lparr>apiUrl = ''http://h/c'', currentPage = 3, limit = Limit10,
                    searchParams = [(''name_like'', ''fr a/'')],
                    sortColumn = Some ''name'', sortDirection = desc\<rparr>,
         document = \<lparr>tbody = None, entriesAmount = None\<rparr>, console = [], network = []\<rparr>))
   \<and> prefix [''http://localhost:3005/countries?_limit=5&_start=10&_sort=name&_order=asc'']
     (network (fetchData (Data []) (CountHeader 40)
        ((system_on_page 3)\<lparr>table := (table_on_page 3)\<lparr>sortColumn := Some ''name''\<rparr>\<rparr>)))
   \<and> table (system_on_page 3) = table ((system_on_page 3)\<lparr>console := [(''a'', ''b'')]\<rparr>)
   \<and> network (fetchData (FetchRejected ''x'') (CountResponse None) (system_on_page 3)) ! length (network (system_on_page 3))
      = network (fetchData (Data []) (CountHeader 40) ((system_on_page 3)\<lparr>console := [(''a'', ''b'')]\<rparr>))
          ! length (network ((system_on_page 3)\<lparr>console := [(''a'', ''b'')]\<rparr>))"
proof -
  let ?w = "\<lparr>table = \<lparr>apiUrl = ''http://h/c'', currentPage = 3, limit = Limit10,
                    searchParams = [(''name_like'', ''fr a/'')],
                    sortColumn = Some ''name'', sortDirection = desc\<rparr>,
         document = \<lparr>tbody = None, entriesAmount = None\<rparr>, console = [], network = []\<rparr>"
  let ?v = "(system_on_page 3)\<lparr>table := (table_on_page 3)\<lparr>sortColumn := Some ''name''\<rparr>\<rparr>"
  have e: "table (system_on_page 3) = table ((system_on_page 3)\<lparr>console := [(''a'', ''b'')]\<rparr>)"
    by simp
  from fetchData_request [of ?w "Data []" "CountHeader 40"]
  have a: "prefix [''http://h/c?_limit=10&_start=20&name_like=fr+a%2F&_sort=name&_order=desc'']
     (network (fetchData (Data []) (CountHeader 40) ?w))"
    by (simp add: show_int_def show_nat.simps URLSearchParams_toString_def form_urlencode_def
          form_urlencode_char_def percent_byte_def)
  from fetchData_request [of ?v "Data []" "CountHeader 40"]
  have c: "prefix [''http://localhost:3005/countries?_limit=5&_start=10&_sort=name&_order=asc'']
     (network (fetchData (Data []) (CountHeader 40) ?v))"
    by (simp add: system_on_page_def table_on_page_def show_int_def show_nat.simps)
  from fetchData_request
         [of "(system_on_page 3)\<lparr>console := [(''a'', ''b'')]\<rparr>" "Data []" "CountHeader 40"
            "''name_like''" "''fr''" "system_on_page 3" "FetchRejected ''x''" "CountResponse None"] e
  have b: "network (fetchData (FetchRejected ''x'') (CountResponse None) (system_on_page 3)) ! length (network (system_on_page 3))
      = network (fetchData (Data []) (CountHeader 40) ((system_on_page 3)\<lparr>console := [(''a'', ''b'')]\<rparr>))
          ! length (network ((system_on_page 3)\<lparr>console := [(''a'', ''b'')]\<rparr>))"
    by blast
  from a c e b show ?thesis by (intro conjI)
qed

subsection \<open>The page size\<close>

text \<open>
  C6. For each of the three limits and every state, \<open>handleSelectChange\<close> stores the
  limit, sets the page to 1, keeps the other fields, and refreshes the table; the request
  of that refresh carries the new limit and the start index 0.
\<close>

theorem handleSelectChange_first_page:
  "limit (table (handleSelectChange selectedValue dreply creply w)) = selectedValue
   \<and> currentPage (table (handleSelectChange selectedValue dreply creply w)) = 1
   \<and> table (handleSelectChange selectedValue dreply creply w)
       = (table w)\<lparr>limit := selectedValue, currentPage := 1\<rparr>
   \<and> handleSelectChange selectedValue dreply creply w
       = fetchData dreply creply (w\<lparr>table := (table w)\<lparr>limit := selectedValue, currentPage := 1\<rparr>\<rparr>)
   \<and> prefix (network w @
        [buildApiUrl ((table w)\<lparr>limit := selectedValue, currentPage := 1\<rparr>)
           (apiUrl (table w) @ ''?_limit='' @ show_int (limit_value selectedValue) @ ''&_start=0'')])
       (network (handleSelectChange selectedValue dreply creply w))
   \<and> selectedValue \<in> {Limit5, Limit10, Limit20}
   \<and> limit_value selectedValue \<in> {5, 10, 20}"
proof -
  let ?w = "w\<lparr>table := (table w)\<lparr>limit := selectedValue, currentPage := 1\<rparr>\<rparr>"
  have h: "handleSelectChange selectedValue dreply creply w = fetchData dreply creply ?w"
    by (simp add: handleSelectChange_def)
  have t: "table (handleSelectChange selectedValue dreply creply w)
       = (table w)\<lparr>limit := selectedValue, currentPage := 1\<rparr>"
    by (simp add: h fetchData_table)
  have n: "prefix (network w @
        [buildApiUrl ((table w)\<lparr>limit := selectedValue, currentPage := 1\<rparr>)
           (apiUrl (table w) @ ''?_limit='' @ show_int (limit_value selectedValue) @ ''&_start=0'')])
       (network (handleSelectChange selectedValue dreply creply w))"
    using fetchData_network [of ?w dreply creply] unfolding h by (simp add: show_int_0)
  have v: "selectedValue \<in> {Limit5, Limit10, Limit20}" "limit_value selectedValue \<in> {5, 10, 20}"
    by (cases selectedValue; simp)+
  from h t n v show ?thesis by simp
qed

theorem handleSelectChange_first_page_witness:
  "currentPage (table (handleSelectChange Limit20 (Data []) (CountHeader 12) (system_on_page 3))) = 1
   \<and> limit (table (handleSelectChange Limit20 (Data []) (CountHeader 12) (system_on_page 3))) = Limit20
   \<and> prefix [''http://localhost:3005/countries?_limit=20&_start=0'']
       (network (handleSelectChange Limit20 (Data []) (CountHeader 12) (system_on_page 3)))"
proof -
  let ?r = "handleSelectChange Limit20 (Data []) (CountHeader 12) (system_on_page 3)"
  from handleSelectChange_first_page [of Limit20 "Data []" "CountHeader 12" "system_on_page 3"]
  have a: "limit (table ?r) = Limit20" "currentPage (table ?r) = 1"
    "prefix (network (system_on_page 3) @
        [buildApiUrl ((table (system_on_page 3))\<lparr>limit := Limit20, currentPage := 1\<rparr>)
           (apiUrl (table (system_on_page 3)) @ ''?_limit='' @ show_int (limit_value Limit20) @ ''&_start=0'')])
       (network ?r)"
    by blast+
  have u: "network (system_on_page 3) @
        [buildApiUrl ((table (system_on_page 3))\<lparr>limit := Limit20, currentPage := 1\<rparr>)
           (apiUrl (table (system_on_page 3)) @ ''?_limit='' @ show_int (limit_value Limit20) @ ''&_start=0'')]
      = [''http://localhost:3005/countries?_limit=20&_start=0'']"
    by (simp add: system_on_page_def table_on_page_def buildApiUrl_def show_int_def show_nat.simps)
  from a(1,2) a(3) [unfolded u] show ?thesis by (intro conjI)
qed

subsection \<open>The previous page\<close>

text \<open>
  C7. On a page that is 1 or less \<open>handlePrevButtonClick\<close> returns the system as it
  is: no field changes and no request is made. On a page above 1 the page goes down by
  exactly one, the other fields of the object keep their values, and the table is
  refreshed, with a request for the page before.
\<close>

theorem handlePrevButtonClick_frame:
  "(currentPage (table w) \<le> 1 \<longrightarrow> handlePrevButtonClick dreply creply w = w)
   \<and> (1 < currentPage (table w) \<longrightarrow>
        currentPage (table (handlePrevButtonClick dreply creply w)) = currentPage (table w) - 1
      \<and> table (handlePrevButtonClick dreply creply w)
          = (table w)\<lparr>currentPage := currentPage (table w) - 1\<rparr>
      \<and> handlePrevButtonClick dreply creply w
          = fetchData dreply creply (w\<lparr>table := (table w)\<lparr>currentPage := currentPage (table w) - 1\<rparr>\<rparr>)
      \<and> prefix (network w @
           [buildApiUrl ((table w)\<lparr>currentPage := currentPage (table w) - 1\<rparr>)
              (apiUrl (table w) @ ''?_limit='' @ show_int (limit_value (limit (table w)))
                 @ ''&_start='' @ show_int ((currentPage (table w) - 2) * limit_value (limit (table w))))])
          (network (handlePrevButtonClick dreply creply w)))"
proof -
  let ?w = "w\<lparr>table := (table w)\<lparr>currentPage := currentPage (table w) - 1\<rparr>\<rparr>"
  have a: "currentPage (table w) \<le> 1 \<longrightarrow> handlePrevButtonClick dreply creply w = w"
    by (simp add: handlePrevButtonClick_def)
  have h: "handlePrevButtonClick dreply creply w = fetchData dreply creply ?w"
    if "1 < currentPage (table w)"
    using that by (simp add: handlePrevButtonClick_def)
  have t: "table (handlePrevButtonClick dreply creply w)
          = (table w)\<lparr>currentPage := currentPage (table w) - 1\<rparr>"
    if "1 < currentPage (table w)"
    by (simp add: h [OF that] fetchData_table)
  have n: "prefix (network w @
           [buildApiUrl ((table w)\<lparr>currentPage := currentPage (table w) - 1\<rparr>)
              (apiUrl (table w) @ ''?_limit='' @ show_int (limit_value (limit (table w)))
                 @ ''&_start='' @ show_int ((currentPage (table w) - 2) * limit_value (limit (table w))))])
          (network (handlePrevButtonClick dreply creply w))"
    if "1 < currentPage (table w)"
    using fetchData_network [of ?w dreply creply] unfolding h [OF that] by simp
  from a h t n show ?thesis by simp
qed

theorem handlePrevButtonClick_frame_witness:
  "currentPage (table (system_on_page 1)) \<le> 1
   \<and> handlePrevButtonClick (Data []) (CountHeader 12) (system_on_page 1) = system_on_page 1
   \<and> network (handlePrevButtonClick (Data []) (CountHeader 12) (system_on_page 1)) = []
   \<and> 1 < currentPage (table (system_on_page 3))
   \<and> currentPage (table (handlePrevButtonClick (Data []) (CountHeader 12) (system_on_page 3))) = 2
   \<and> prefix [''http://localhost:3005/countries?_limit=5&_start=5'']
        (network (handlePrevButtonClick (Data []) (CountHeader 12) (system_on_page 3)))"
proof -
  have p: "currentPage (table (system_on_page 1)) \<le> 1" "1 < currentPage (table (system_on_page 3))"
    "network (system_on_page 1) = []"
    by (simp_all add: system_on_page_def table_on_page_def)
  from handlePrevButtonClick_frame [of "system_on_page 1" "Data []" "CountHeader 12"] p(1)
  have a: "handlePrevButtonClick (Data []) (CountHeader 12) (system_on_page 1) = system_on_page 1"
    by blast
  from handlePrevButtonClick_frame [of "system_on_page 3" "Data []" "CountHeader 12"] p(2)
  have b: "currentPage (table (handlePrevButtonClick (Data []) (CountHeader 12) (system_on_page 3)))
             = currentPage (table (system_on_page 3)) - 1"
    "prefix (network (system_on_page 3) @
           [buildApiUrl ((table (system_on_page 3))\<lparr>currentPage := currentPage (table (system_on_page 3)) - 1\<rparr>)
              (apiUrl (table (system_on_page 3)) @ ''?_limit='' @ show_int (limit_value (limit (table (system_on_page 3))))
                 @ ''&_start='' @ show_int ((currentPage (table (system_on_page 3)) - 2) * limit_value (limit (table (system_on_page 3)))))])
          (network (handlePrevButtonClick (Data []) (CountHeader 12) (system_on_page 3)))"
    by blast+
  have u: "network (system_on_page 3) @
           [buildApiUrl ((table (system_on_page 3))\<lparr>currentPage := currentPage (table (system_on_page 3)) - 1\<rparr>)
              (apiUrl (table (system_on_page 3)) @ ''?_limit='' @ show_int (limit_value (limit (table (system_on_page 3))))
                 @ ''&_start='' @ show_int ((currentPage (table (system_on_page 3)) - 2) * limit_value (limit (table (system_on_page 3)))))]
      = [''http://localhost:3005/countries?_limit=5&_start=5'']"
    by (simp add: system_on_page_def table_on_page_def buildApiUrl_def show_int_def show_nat.simps)
  have c: "currentPage (table (system_on_page 3)) - 1 = 2"
    by (simp add: system_on_page_def table_on_page_def)
  have e: "network (handlePrevButtonClick (Data []) (CountHeader 12) (system_on_page 1)) = []"
    unfolding a by (rule p(3))
  from p(1) a e p(2) b(1) [unfolded c] b(2) [unfolded u] show ?thesis by (intro conjI)
qed

subsection \<open>The page number\<close>

lemma new_CountryTable_page: "currentPage (table (new_CountryTable url d dreply creply)) = 1"
  by (simp add: new_CountryTable_def fetchData_table)

lemma handleSelectChange_page: "currentPage (table (handleSelectChange v dreply creply w)) = 1"
  by (simp add: handleSelectChange_def fetchData_table)

lemma handleInput_page:
  "handleInput index input dreply creply w = Inr w' \<Longrightarrow> currentPage (table w') = 1"
  by (auto simp: handleInput_def fetchData_table Let_def split: option.splits)

lemma handlePrevButtonClick_page:
  "1 \<le> currentPage (table w) \<Longrightarrow> 1 \<le> currentPage (table (handlePrevButtonClick dreply creply w))"
  by (simp add: handlePrevButtonClick_def fetchData_table)

lemma handleNextButtonClick_page:
  "currentPage (table w) \<le> currentPage (table (handleNextButtonClick nreply dreply creply w))"
  by (simp add: handleNextButtonClick_def getNumberOfEntries_def fetchData_table Let_def
      split: count_reply.split)

lemma handleSortClick_page:
  "currentPage (table (handleSortClick column dreply creply w)) = currentPage (table w)"
  by (simp add: handleSortClick_def fetchData_table Let_def)

lemma dispatch_page:
  assumes "1 \<le> currentPage (table w)"
  shows "1 \<le> currentPage (table (dispatch e w))"
proof (cases e)
  case (SelectChange v dr cr)
  then show ?thesis by (simp add: handleSelectChange_page)
next
  case (Input i input dr cr)
  show ?thesis
  proof (cases "handleInput i input dr cr w")
    case (Inl err)
    with Input assms show ?thesis by simp
  next
    case (Inr w')
    with Input handleInput_page [OF Inr] show ?thesis by simp
  qed
next
  case (PrevClick dr cr)
  with assms show ?thesis by (simp add: handlePrevButtonClick_page)
next
  case (NextClick nr dr cr)
  with assms handleNextButtonClick_page [of w nr dr cr] show ?thesis by simp
next
  case (ColumnClick columnName dr cr)
  with assms show ?thesis by (simp add: handleSortClick_page split: option.split)
qed

lemma run_page: "1 \<le> currentPage (table w) \<Longrightarrow> 1 \<le> currentPage (table (run es w))"
  by (induction es arbitrary: w) (simp_all add: dispatch_page)

text \<open>
  C8. The page is 1 after the constructor; each of the five handlers, and so each event,
  takes a state whose page is at least 1 to a state whose page is at least 1; so the page
  is at least 1 after the constructor and any sequence of events.
\<close>

theorem currentPage_at_least_1:
  "currentPage (table (new_CountryTable url d dreply0 creply0)) = 1
   \<and> (1 \<le> currentPage (table w) \<longrightarrow>
          1 \<le> currentPage (table (handleSelectChange selectedValue dreply creply w))
        \<and> (\<forall>w'. handleInput index input dreply creply w = Inr w' \<longrightarrow> 1 \<le> currentPage (table w'))
        \<and> 1 \<le> currentPage (table (handlePrevButtonClick dreply creply w))
        \<and> 1 \<le> currentPage (table (handleNextButtonClick nreply dreply creply w))
        \<and> 1 \<le> currentPage (table (handleSortClick column dreply creply w))
        \<and> 1 \<le> currentPage (table (dispatch e w)))
   \<and> 1 \<le> currentPage (table (run events (new_CountryTable url d dreply0 creply0)))"
proof (intro conjI impI allI)
  show "currentPage (table (new_CountryTable url d dreply0 creply0)) = 1"
    by (rule new_CountryTable_page)
  show "1 \<le> currentPage (table (run events (new_CountryTable url d dreply0 creply0)))"
    by (rule run_page) (simp add: new_CountryTable_page)
next
  assume p: "1 \<le> currentPage (table w)"
  show "1 \<le> currentPage (table (handleSelectChange selectedValue dreply creply w))"
    by (simp add: handleSelectChange_page)
  show "1 \<le> currentPage (table (handlePrevButtonClick dreply creply w))"
    using p by (rule handlePrevButtonClick_page)
  show "1 \<le> currentPage (table (handleNextButtonClick nreply dreply creply w))"
    using p handleNextButtonClick_page [of w nreply dreply creply] by simp
  show "1 \<le> currentPage (table (handleSortClick column dreply creply w))"
    using p by (simp add: handleSortClick_page)
  show "1 \<le> currentPage (table (dispatch e w))"
    using p by (rule dispatch_page)
  show "1 \<le> currentPage (table w')" if "handleInput index input dreply creply w = Inr w'" for w'
    using handleInput_page [OF that] by simp
qed

theorem currentPage_at_least_1_witness:
  "1 \<le> currentPage (table (system_on_page 1))
   \<and> 1 \<le> currentPage (table (handlePrevButtonClick (Data []) (CountHeader 12) (system_on_page 1)))
   \<and> handleInput 1 (Some ''fr'') (Data []) (CountHeader 12) (system_on_page 1)
       = Inr (fetchData (Data []) (CountHeader 12)
               ((system_on_page 1)\<lparr>table := (table_on_page 1)\<lparr>searchParams := [(''name_like'', ''fr'')]\<rparr>\<rparr>))
   \<and> 1 \<le> currentPage (table (fetchData (Data []) (CountHeader 12)
               ((system_on_page 1)\<lparr>table := (table_on_page 1)\<lparr>searchParams := [(''name_like'', ''fr'')]\<rparr>\<rparr>)))
   \<and> 1 \<le> currentPage (table (run [PrevClick (Data []) (CountHeader 12),
                                      PrevClick (FetchRejected ''x'') (CountHeader 12)]
         (new_CountryTable ''http://localhost:3005/countries'' \<lparr>tbody = Some [], entriesAmount = Some []\<rparr>
            (Data []) (CountHeader 12))))"
proof -
  have p: "1 \<le> currentPage (table (system_on_page 1))"
    by (simp add: system_on_page_def table_on_page_def)
  have i: "handleInput 1 (Some ''fr'') (Data []) (CountHeader 12) (system_on_page 1)
       = Inr (fetchData (Data []) (CountHeader 12)
               ((system_on_page 1)\<lparr>table := (table_on_page 1)\<lparr>searchParams := [(''name_like'', ''fr'')]\<rparr>\<rparr>))"
    by (simp add: handleInput_def trim_def is_white_space_def system_on_page_def table_on_page_def Let_def)
  from currentPage_at_least_1
         [of _ _ _ _ "system_on_page 1" _ "Data []" "CountHeader 12" 1 "Some ''fr''"] p i
  have a: "1 \<le> currentPage (table (handlePrevButtonClick (Data []) (CountHeader 12) (system_on_page 1)))"
    "1 \<le> currentPage (table (fetchData (Data []) (CountHeader 12)
               ((system_on_page 1)\<lparr>table := (table_on_page 1)\<lparr>searchParams := [(''name_like'', ''fr'')]\<rparr>\<rparr>)))"
    by blast+
  from currentPage_at_least_1
         [of "''http://localhost:3005/countries''" "\<lparr>tbody = Some [], entriesAmount = Some []\<rparr>"
            "Data []" "CountHeader 12" _ _ _ _ _ _ _ _ _
            "[PrevClick (Data []) (CountHeader 12),
              PrevClick (FetchRejected ''x'') (CountHeader 12)]"]
  have b: "1 \<le> currentPage (table (run [PrevClick (Data []) (CountHeader 12),
                                      PrevClick (FetchRejected ''x'') (CountHeader 12)]
         (new_CountryTable ''http://localhost:3005/countries'' \<lparr>tbody = Some [], entriesAmount = Some []\<rparr>
            (Data []) (CountHeader 12))))"
    by blast
  from p a(1) i a(2) b show ?thesis by (intro conjI)
qed

subsection \<open>A count that cannot be fetched\<close>

lemma fetchData_document_cong:
  "table s = table s' \<Longrightarrow> document s = document s' \<Longrightarrow>
   document (fetchData dreply creply s) = document (fetchData dreply creply s')"
  by (simp add: fetchData_def getNumberOfEntries_def Let_def
      split: data_reply.split option.split count_reply.split)

text \<open>
  C9. When \<open>fetch\<close> rejects, \<open>getNumberOfEntries\<close> makes its request, writes one
  line on the console and returns the integer 0. \<open>handleNextButtonClick\<close> then has 0
  pages in total, and on a page that is not negative, so in every state reached from the
  constructor, it leaves the page, the other fields and the view as they are. The
  fields and the view it ends with are those it ends with when the response says that
  there are 0 entries.
\<close>

theorem handleNextButtonClick_count_rejected:
  "getNumberOfEntries (CountRejected msg) w
     = (Integer (Abs_exact_int 0),
        w\<lparr>network := network w @ [apiUrl (table w) @ ''?_limit=1''],
          console := console w @ [(''Error fetching total amount of API entries:'', msg)]\<rparr>)
   \<and> Rep_exact_int (Abs_exact_int 0) = 0
   \<and> Math_ceil_quotient (fst (getNumberOfEntries (CountRejected msg) w)) (limit (table w))
       = Pages \<lceil>real_of_int 0 / real_of_int (limit_value (limit (table w)))\<rceil>
   \<and> Math_ceil_quotient (fst (getNumberOfEntries (CountRejected msg) w)) (limit (table w)) = Pages 0
   \<and> (0 \<le> currentPage (table w) \<longrightarrow>
          handleNextButtonClick (CountRejected msg) dreply creply w
            = snd (getNumberOfEntries (CountRejected msg) w)
        \<and> currentPage (table (handleNextButtonClick (CountRejected msg) dreply creply w))
            = currentPage (table w)
        \<and> table (handleNextButtonClick (CountRejected msg) dreply creply w) = table w
        \<and> document (handleNextButtonClick (CountRejected msg) dreply creply w) = document w)
   \<and> currentPage (table (handleNextButtonClick (CountRejected msg) dreply creply
         (run events (new_CountryTable url d dreply0 creply0))))
       = currentPage (table (run events (new_CountryTable url d dreply0 creply0)))
   \<and> table (handleNextButtonClick (CountRejected msg) dreply creply w)
       = table (handleNextButtonClick (CountHeader 0) dreply creply w)
   \<and> document (handleNextButtonClick (CountRejected msg) dreply creply w)
       = document (handleNextButtonClick (CountHeader 0) dreply creply w)"
proof -
  let ?w1 = "w\<lparr>network := network w @ [apiUrl (table w) @ ''?_limit=1''],
             console := console w @ [(''Error fetching total amount of API entries:'', msg)]\<rparr>"
  have g: "getNumberOfEntries (CountRejected msg) s
     = (Integer (Abs_exact_int 0),
        s\<lparr>network := network s @ [apiUrl (table s) @ ''?_limit=1''],
          console := console s @ [(''Error fetching total amount of API entries:'', msg)]\<rparr>)" for s
    by (simp add: getNumberOfEntries_def Let_def)
  have z: "Rep_exact_int (Abs_exact_int 0) = 0"
    by simp
  have c: "Math_ceil_quotient (fst (getNumberOfEntries (CountRejected msg) w)) (limit (table w))
       = Pages \<lceil>real_of_int 0 / real_of_int (limit_value (limit (table w)))\<rceil>"
    "Math_ceil_quotient (fst (getNumberOfEntries (CountRejected msg) w)) (limit (table w)) = Pages 0"
    by (simp_all add: g)
  have stay: "handleNextButtonClick (CountRejected msg) dreply creply s
            = snd (getNumberOfEntries (CountRejected msg) s)" if "0 \<le> currentPage (table s)" for s
    using that by (simp add: handleNextButtonClick_def g)
  have a: "0 \<le> currentPage (table w) \<longrightarrow>
          handleNextButtonClick (CountRejected msg) dreply creply w
            = snd (getNumberOfEntries (CountRejected msg) w)
        \<and> currentPage (table (handleNextButtonClick (CountRejected msg) dreply creply w))
            = currentPage (table w)
        \<and> table (handleNextButtonClick (CountRejected msg) dreply creply w) = table w
        \<and> document (handleNextButtonClick (CountRejected msg) dreply creply w) = document w"
    using stay [of w] by (simp add: g)
  have "1 \<le> currentPage (table (run events (new_CountryTable url d dreply0 creply0)))"
    by (rule run_page) (simp add: new_CountryTable_page)
  then have "0 \<le> currentPage (table (run events (new_CountryTable url d dreply0 creply0)))"
    by simp
  from stay [OF this]
  have r: "currentPage (table (handleNextButtonClick (CountRejected msg) dreply creply
         (run events (new_CountryTable url d dreply0 creply0))))
       = currentPage (table (run events (new_CountryTable url d dreply0 creply0)))"
    by (simp add: g)
  have t: "table (handleNextButtonClick (CountRejected msg) dreply creply w)
       = table (handleNextButtonClick (CountHeader 0) dreply creply w)"
    by (simp add: handleNextButtonClick_def getNumberOfEntries_def fetchData_table Let_def)
  have e: "document (handleNextButtonClick (CountRejected msg) dreply creply w)
       = document (handleNextButtonClick (CountHeader 0) dreply creply w)"
    by (simp add: handleNextButtonClick_def getNumberOfEntries_def Let_def fetchData_document_cong)
  from g [of w] z c a r t e show ?thesis by (intro conjI)
qed

theorem handleNextButtonClick_count_rejected_witness:
  "0 \<le> currentPage (table (system_on_page 1))
   \<and> handleNextButtonClick (CountRejected ''Failed to fetch'') (Data [france]) (CountHeader 12)
        (system_on_page 1)
      = (system_on_page 1)
          \<lparr>network := [''http://localhost:3005/countries?_limit=1''],
           console := [(''Error fetching total amount of API entries:'', ''Failed to fetch'')]\<rparr>
   \<and> currentPage (table (handleNextButtonClick (CountRejected ''Failed to fetch'') (Data [france])
        (CountHeader 12) (system_on_page 1))) = 1"
proof -
  have p: "0 \<le> currentPage (table (system_on_page 1))" "currentPage (table (system_on_page 1)) = 1"
    by (simp_all add: system_on_page_def table_on_page_def)
  have g: "snd (getNumberOfEntries (CountRejected ''Failed to fetch'') (system_on_page 1))
      = (system_on_page 1)
          \<lparr>network := [''http://localhost:3005/countries?_limit=1''],
           console := [(''Error fetching total amount of API entries:'', ''Failed to fetch'')]\<rparr>"
    by (simp add: getNumberOfEntries_def system_on_page_def table_on_page_def)
  from handleNextButtonClick_count_rejected
         [of "''Failed to fetch''" "system_on_page 1" "Data [france]" "CountHeader 12"] p(1)
  have a: "handleNextButtonClick (CountRejected ''Failed to fetch'') (Data [france]) (CountHeader 12)
        (system_on_page 1) = snd (getNumberOfEntries (CountRejected ''Failed to fetch'') (system_on_page 1))"
    "currentPage (table (handleNextButtonClick (CountRejected ''Failed to fetch'') (Data [france])
        (CountHeader 12) (system_on_page 1))) = currentPage (table (system_on_page 1))"
    by blast+
  from p(1) a(1) [unfolded g] a(2) [unfolded p(2)] show ?thesis by (intro conjI)
qed
subsection \<open>The summary of the entries\<close>

text \<open>
  C10. After a refresh whose page arrives, in a document that has the span, the text of
  the span is \<open>Showing\<close> offset + 1 \<open>to\<close> offset + limit \<open>of\<close> total
  \<open>Entries\<close>, where the total is the number that \<open>getNumberOfEntries\<close> returns as
  a template literal prints it: the decimal digits of a count that a number holds
  exactly, 0 when the header is absent or the request rejected, \<open>NaN\<close>,
  \<open>Infinity\<close> or \<open>-Infinity\<close> for these numbers, and for any other number the
  text that the platform gives it. The countries of the page do not enter the text. So
  the upper bound can be larger than the total: on page 3 of 12 entries, with two
  countries on the page, the text is \<open>Showing 11 to 15 of 12 Entries\<close>, and for an
  empty collection it is \<open>Showing 1 to 5 of 0 Entries\<close>. A header of ten to the power
  21 is printed as \<open>1e+21\<close>, and a header of \<open>-5\<close> with its sign.
\<close>

theorem fetchData_entries_text:
  assumes "entriesAmount (document w) = Some old"
    and "offset = (currentPage (table w) - 1) * limit_value (limit (table w))"
    and "totalEntries = fst (getNumberOfEntries creply w)"
  shows "entriesAmount (document (fetchData (Data countries) creply w))
       = Some (''Showing '' @ show_int (offset + 1) @ '' to ''
                 @ show_int (offset + limit_value (limit (table w)))
                 @ '' of '' @ number_text totalEntries @ '' Entries'')
    \<and> (creply = CountResponse (Some (Integer n)) \<longrightarrow>
          number_text totalEntries = show_int (Rep_exact_int n))
    \<and> (creply = CountResponse None \<or> creply = CountRejected msg \<longrightarrow> number_text totalEntries = ''0'')
    \<and> (creply = CountResponse (Some NaN) \<longrightarrow> number_text totalEntries = ''NaN'')
    \<and> (creply = CountResponse (Some PlusInfinity) \<longrightarrow> number_text totalEntries = ''Infinity'')
    \<and> (creply = CountResponse (Some MinusInfinity) \<longrightarrow> number_text totalEntries = ''-Infinity'')
    \<and> (creply = CountResponse (Some (OtherNumber pa pb pc printed)) \<longrightarrow>
          number_text totalEntries = printed)
    \<and> (\<exists>s page reply. entriesAmount (document s) \<noteq> None
          \<and> length page < nat (limit_value (limit (table s)))
          \<and> fst (getNumberOfEntries reply s) = Integer (Abs_exact_int 12)
          \<and> 12 < (currentPage (table s) - 1) * limit_value (limit (table s)) + limit_value (limit (table s))
          \<and> entriesAmount (document (fetchData (Data page) reply s))
              = Some ''Showing 11 to 15 of 12 Entries'')
    \<and> entriesAmount (document (fetchData (Data []) (CountHeader 0) (system_on_page 1)))
       = Some ''Showing 1 to 5 of 0 Entries''
    \<and> entriesAmount (document (fetchData (Data [france])
          (CountResponse (Some (OtherNumber 200000000000000000000 100000000000000000000
                                  50000000000000000000 ''1e+21''))) (system_on_page 1)))
       = Some ''Showing 1 to 5 of 1e+21 Entries''
    \<and> entriesAmount (document (fetchData (Data []) (CountHeader (- 5)) (system_on_page 22)))
       = Some ''Showing 106 to 110 of -5 Entries''"
proof (intro conjI)
  have e: "totalEntries = (case creply of CountResponse header \<Rightarrow> Number header
                             | CountRejected m \<Rightarrow> Integer (Abs_exact_int 0))"
    using assms(3) by (simp add: getNumberOfEntries_def Let_def split: count_reply.split)
  show "entriesAmount (document (fetchData (Data countries) creply w))
       = Some (''Showing '' @ show_int (offset + 1) @ '' to ''
                 @ show_int (offset + limit_value (limit (table w)))
                 @ '' of '' @ number_text totalEntries @ '' Entries'')"
    using assms
    by (simp add: fetchData_def getNumberOfEntries_def renderItems_def entries_text_def Let_def
        split: option.split count_reply.split)
  show "creply = CountResponse (Some (Integer n)) \<longrightarrow>
          number_text totalEntries = show_int (Rep_exact_int n)"
    by (simp add: e)
  show "creply = CountResponse None \<or> creply = CountRejected msg \<longrightarrow> number_text totalEntries = ''0''"
    by (auto simp: e show_int_0)
  show "creply = CountResponse (Some NaN) \<longrightarrow> number_text totalEntries = ''NaN''"
    by (simp add: e)
  show "creply = CountResponse (Some PlusInfinity) \<longrightarrow> number_text totalEntries = ''Infinity''"
    by (simp add: e)
  show "creply = CountResponse (Some MinusInfinity) \<longrightarrow> number_text totalEntries = ''-Infinity''"
    by (simp add: e)
  show "creply = CountResponse (Some (OtherNumber pa pb pc printed)) \<longrightarrow>
          number_text totalEntries = printed"
    by (simp add: e)
  have "entriesAmount (document (system_on_page 3)) \<noteq> None
          \<and> length [france, france] < nat (limit_value (limit (table (system_on_page 3))))
          \<and> fst (getNumberOfEntries (CountHeader 12) (system_on_page 3)) = Integer (Abs_exact_int 12)
          \<and> 12 < (currentPage (table (system_on_page 3)) - 1) * limit_value (limit (table (system_on_page 3)))
                  + limit_value (limit (table (system_on_page 3)))
          \<and> entriesAmount (document (fetchData (Data [france, france]) (CountHeader 12) (system_on_page 3)))
              = Some ''Showing 11 to 15 of 12 Entries''"
    by (simp add: eval_simps)
  then show "\<exists>s page reply. entriesAmount (document s) \<noteq> None
          \<and> length page < nat (limit_value (limit (table s)))
          \<and> fst (getNumberOfEntries reply s) = Integer (Abs_exact_int 12)
          \<and> 12 < (currentPage (table s) - 1) * limit_value (limit (table s)) + limit_value (limit (table s))
          \<and> entriesAmount (document (fetchData (Data page) reply s))
              = Some ''Showing 11 to 15 of 12 Entries''"
    by blast
  show "entriesAmount (document (fetchData (Data []) (CountHeader 0) (system_on_page 1)))
       = Some ''Showing 1 to 5 of 0 Entries''"
    by (simp add: eval_simps)
  show "entriesAmount (document (fetchData (Data [france])
          (CountResponse (Some (OtherNumber 200000000000000000000 100000000000000000000
                                  50000000000000000000 ''1e+21''))) (system_on_page 1)))
       = Some ''Showing 1 to 5 of 1e+21 Entries''"
    by (simp add: eval_simps)
  show "entriesAmount (document (fetchData (Data []) (CountHeader (- 5)) (system_on_page 22)))
       = Some ''Showing 106 to 110 of -5 Entries''"
    by (simp add: eval_simps)
qed

theorem fetchData_entries_text_witness:
  "entriesAmount (document (system_on_page 2)) = Some []
   \<and> (5::int) = (currentPage (table (system_on_page 2)) - 1) * limit_value (limit (table (system_on_page 2)))
   \<and> Integer (Abs_exact_int 7) = fst (getNumberOfEntries (CountHeader 7) (system_on_page 2))
   \<and> entriesAmount (document (fetchData (Data [france, france]) (CountHeader 7) (system_on_page 2)))
       = Some ''Showing 6 to 10 of 7 Entries''
   \<and> NaN = fst (getNumberOfEntries (CountResponse (Some NaN)) (system_on_page 2))
   \<and> entriesAmount (document (fetchData (Data []) (CountResponse (Some NaN)) (system_on_page 2)))
       = Some ''Showing 6 to 10 of NaN Entries''"
proof -
  have h: "entriesAmount (document (system_on_page 2)) = Some []"
    "(5::int) = (currentPage (table (system_on_page 2)) - 1) * limit_value (limit (table (system_on_page 2)))"
    by (simp_all add: system_on_page_def table_on_page_def)
  have h7: "Integer (Abs_exact_int 7) = fst (getNumberOfEntries (CountHeader 7) (system_on_page 2))"
    and hn: "NaN = fst (getNumberOfEntries (CountResponse (Some NaN)) (system_on_page 2))"
    by (simp_all add: getNumberOfEntries_def)
  have l: "limit_value (limit (table (system_on_page 2))) = 5"
    by (simp add: system_on_page_def table_on_page_def)
  have s: "''Showing '' @ show_int (5 + 1) @ '' to '' @ show_int (5 + 5) @ '' of ''
             @ number_text (Integer (Abs_exact_int 7)) @ '' Entries''
      = ''Showing 6 to 10 of 7 Entries''"
    "''Showing '' @ show_int (5 + 1) @ '' to '' @ show_int (5 + 5) @ '' of ''
             @ number_text NaN @ '' Entries''
      = ''Showing 6 to 10 of NaN Entries''"
    by (simp_all add: show_int_def show_nat.simps)
  from fetchData_entries_text [OF h h7, of "[france, france]"]
  have a: "entriesAmount (document (fetchData (Data [france, france]) (CountHeader 7) (system_on_page 2)))
       = Some (''Showing '' @ show_int (5 + 1) @ '' to '' @ show_int (5 + 5) @ '' of ''
             @ number_text (Integer (Abs_exact_int 7)) @ '' Entries'')"
    unfolding l by blast
  from fetchData_entries_text [OF h hn, of "[]"]
  have b: "entriesAmount (document (fetchData (Data []) (CountResponse (Some NaN)) (system_on_page 2)))
       = Some (''Showing '' @ show_int (5 + 1) @ '' to '' @ show_int (5 + 5) @ '' of ''
             @ number_text NaN @ '' Entries'')"
    unfolding l by blast
  from h h7 a [unfolded s] hn b [unfolded s] show ?thesis by (intro conjI)
qed

end
